theory Spec2Isabelle
  imports Complex_Main "HOL-Library.Sublist"
begin

section \<open>Strings\<close>

text \<open>
  A Python \<open>str\<close> is a sequence of Unicode code points, and \<open>sub in s\<close> is true when
  \<open>sub\<close> occurs in \<open>s\<close> as a contiguous run of code points. The signal labels of
  \<open>technical_analysis.py\<close> are Chinese, so a string is modelled as the list of its code
  points; every label below is the literal of the source, code point by code point, with an
  English gloss.
\<close>

type_synonym ustr = "nat list"

fun contains :: "ustr \<Rightarrow> ustr \<Rightarrow> bool" where
  "contains sub [] = (sub = [])"
| "contains sub (c # cs) = (prefix sub (c # cs) \<or> contains sub cs)"

text \<open>Keywords looked for by \<open>technical_score\<close>.\<close>

definition kw_golden :: ustr where \<comment> \<open>golden cross\<close>
  "kw_golden = [0x91D1, 0x53C9]"
definition kw_bull :: ustr where \<comment> \<open>bullish (long side)\<close>
  "kw_bull = [0x591A, 0x5934]"
definition kw_death :: ustr where \<comment> \<open>death cross\<close>
  "kw_death = [0x6B7B, 0x53C9]"
definition kw_bear :: ustr where \<comment> \<open>bearish (short side)\<close>
  "kw_bear = [0x7A7A, 0x5934]"
definition kw_strong_buy :: ustr where \<comment> \<open>strong buy\<close>
  "kw_strong_buy = [0x5F3A, 0x4E70]"
definition kw_buy :: ustr where \<comment> \<open>buy\<close>
  "kw_buy = [0x4E70, 0x5165]"
definition kw_strong_sell :: ustr where \<comment> \<open>strong sell\<close>
  "kw_strong_sell = [0x5F3A, 0x5356]"
definition kw_sell :: ustr where \<comment> \<open>sell\<close>
  "kw_sell = [0x5356, 0x51FA]"
definition kw_oversold :: ustr where \<comment> \<open>oversold\<close>
  "kw_oversold = [0x8D85, 0x5356]"
definition kw_overbought :: ustr where \<comment> \<open>overbought\<close>
  "kw_overbought = [0x8D85, 0x4E70]"
definition kw_bias_up :: ustr where \<comment> \<open>bullish bias\<close>
  "kw_bias_up = [0x504F, 0x591A]"
definition kw_bias_down :: ustr where \<comment> \<open>bearish bias\<close>
  "kw_bias_down = [0x504F, 0x7A7A]"

text \<open>Signal labels returned by the classifiers.\<close>

definition sig_insufficient :: ustr where \<comment> \<open>insufficient data\<close>
  "sig_insufficient = [0x6570, 0x636E, 0x4E0D, 0x8DB3]"

definition macd_golden :: ustr where \<comment> \<open>golden cross / buy\<close>
  "macd_golden = [0x91D1, 0x53C9, 0x4E70, 0x5165]"
definition macd_death :: ustr where \<comment> \<open>death cross / sell\<close>
  "macd_death = [0x6B7B, 0x53C9, 0x5356, 0x51FA]"
definition macd_bull_strong :: ustr where \<comment> \<open>bullish, strong\<close>
  "macd_bull_strong = [0x591A, 0x5934, 0x5F3A, 0x52BF]"
definition macd_bull_emerging :: ustr where \<comment> \<open>bullish, emerging\<close>
  "macd_bull_emerging = [0x591A, 0x5934, 0x521D, 0x73B0]"
definition macd_bear_strong :: ustr where \<comment> \<open>bearish, strong\<close>
  "macd_bear_strong = [0x7A7A, 0x5934, 0x5F3A, 0x52BF]"
definition macd_bear_emerging :: ustr where \<comment> \<open>bearish, emerging\<close>
  "macd_bear_emerging = [0x7A7A, 0x5934, 0x521D, 0x73B0]"

definition kdj_oversold_golden :: ustr where \<comment> \<open>oversold golden cross - strong buy\<close>
  "kdj_oversold_golden = [0x8D85, 0x5356, 0x91D1, 0x53C9, 0x2D, 0x5F3A, 0x4E70]"
definition kdj_golden :: ustr where \<comment> \<open>golden cross / buy\<close>
  "kdj_golden = [0x91D1, 0x53C9, 0x4E70, 0x5165]"
definition kdj_high_golden :: ustr where \<comment> \<open>high-level golden cross\<close>
  "kdj_high_golden = [0x9AD8, 0x4F4D, 0x91D1, 0x53C9]"
definition kdj_overbought_death :: ustr where \<comment> \<open>overbought death cross - strong sell\<close>
  "kdj_overbought_death = [0x8D85, 0x4E70, 0x6B7B, 0x53C9, 0x2D, 0x5F3A, 0x5356]"
definition kdj_death :: ustr where \<comment> \<open>death cross / sell\<close>
  "kdj_death = [0x6B7B, 0x53C9, 0x5356, 0x51FA]"
definition kdj_low_death :: ustr where \<comment> \<open>low-level death cross\<close>
  "kdj_low_death = [0x4F4E, 0x4F4D, 0x6B7B, 0x53C9]"
definition kdj_overbought_zone :: ustr where \<comment> \<open>overbought zone\<close>
  "kdj_overbought_zone = [0x8D85, 0x4E70, 0x533A, 0x57DF]"
definition kdj_oversold_zone :: ustr where \<comment> \<open>oversold zone\<close>
  "kdj_oversold_zone = [0x8D85, 0x5356, 0x533A, 0x57DF]"
definition kdj_neutral :: ustr where \<comment> \<open>neutral / choppy\<close>
  "kdj_neutral = [0x4E2D, 0x6027, 0x9707, 0x8361]"

definition rsi_severe_overbought :: ustr where \<comment> \<open>severely overbought\<close>
  "rsi_severe_overbought = [0x4E25, 0x91CD, 0x8D85, 0x4E70]"
definition rsi_overbought :: ustr where \<comment> \<open>overbought\<close>
  "rsi_overbought = [0x8D85, 0x4E70]"
definition rsi_severe_oversold :: ustr where \<comment> \<open>severely oversold\<close>
  "rsi_severe_oversold = [0x4E25, 0x91CD, 0x8D85, 0x5356]"
definition rsi_oversold :: ustr where \<comment> \<open>oversold\<close>
  "rsi_oversold = [0x8D85, 0x5356]"
definition rsi_neutral_prefix :: ustr where \<comment> \<open>neutral, followed by an opening bracket\<close>
  "rsi_neutral_prefix = [0x4E2D, 0x6027, 0x28]"

definition boll_above_upper :: ustr where \<comment> \<open>breakout above the upper band - overbought\<close>
  "boll_above_upper = [0x7A81, 0x7834, 0x4E0A, 0x8F68, 0x2D, 0x8D85, 0x4E70]"
definition boll_below_lower :: ustr where \<comment> \<open>breakdown below the lower band - oversold\<close>
  "boll_below_lower = [0x8DCC, 0x7834, 0x4E0B, 0x8F68, 0x2D, 0x8D85, 0x5356]"
definition boll_above_mid :: ustr where \<comment> \<open>above the middle band - bullish bias\<close>
  "boll_above_mid = [0x4E2D, 0x8F68, 0x4E0A, 0x65B9, 0x2D, 0x504F, 0x591A]"
definition boll_below_mid :: ustr where \<comment> \<open>below the middle band - bearish bias\<close>
  "boll_below_mid = [0x4E2D, 0x8F68, 0x4E0B, 0x65B9, 0x2D, 0x504F, 0x7A7A]"

definition trend_up :: ustr where \<comment> \<open>uptrend\<close>
  "trend_up = [0x4E0A, 0x5347, 0x8D8B, 0x52BF]"
definition trend_down :: ustr where \<comment> \<open>downtrend\<close>
  "trend_down = [0x4E0B, 0x964D, 0x8D8B, 0x52BF]"
definition trend_sideways :: ustr where \<comment> \<open>sideways / consolidating\<close>
  "trend_sideways = [0x9707, 0x8361, 0x6574, 0x7406]"

text \<open>Rating labels.\<close>

definition rating_strong_buy :: ustr where \<comment> \<open>strong buy\<close>
  "rating_strong_buy = [0x5F3A, 0x70C8, 0x4E70, 0x5165]"
definition rating_buy :: ustr where \<comment> \<open>buy\<close>
  "rating_buy = [0x4E70, 0x5165]"
definition rating_neutral :: ustr where \<comment> \<open>neutral\<close>
  "rating_neutral = [0x4E2D, 0x6027]"
definition rating_sell :: ustr where \<comment> \<open>sell\<close>
  "rating_sell = [0x5356, 0x51FA]"
definition rating_strong_sell :: ustr where \<comment> \<open>strong sell\<close>
  "rating_strong_sell = [0x5F3A, 0x70C8, 0x5356, 0x51FA]"

section \<open>The composite scorer\<close>

record score_data =
  score :: int
  rating :: ustr
  stars :: int

text \<open>
  \<open>technical_score\<close>, lines 228 to 266: the base score 50 and the five additive
  adjustments, each an \<open>if\<close>/\<open>elif\<close> chain on substrings of one signal (the trend is
  compared for equality). The successive values of the variable \<open>score\<close> are \<open>s0\<close> to
  \<open>s5\<close>.
\<close>

definition adjusted_score :: "ustr \<Rightarrow> ustr \<Rightarrow> ustr \<Rightarrow> ustr \<Rightarrow> ustr \<Rightarrow> int" where
  "adjusted_score macd_signal kdj_signal rsi_signal boll_signal trend =
    (let s0 = 50;
         s1 = (if contains kw_golden macd_signal \<or> contains kw_bull macd_signal then s0 + 15
               else if contains kw_death macd_signal \<or> contains kw_bear macd_signal then s0 - 15
               else s0);
         s2 = (if contains kw_strong_buy kdj_signal then s1 + 15
               else if contains kw_buy kdj_signal then s1 + 10
               else if contains kw_strong_sell kdj_signal then s1 - 15
               else if contains kw_sell kdj_signal then s1 - 10
               else s1);
         s3 = (if contains kw_oversold rsi_signal then s2 + 10
               else if contains kw_overbought rsi_signal then s2 - 10
               else s2);
         s4 = (if contains kw_oversold boll_signal then s3 + 10
               else if contains kw_overbought boll_signal then s3 - 10
               else if contains kw_bias_up boll_signal then s3 + 5
               else if contains kw_bias_down boll_signal then s3 - 5
               else s3);
         s5 = (if trend = trend_up then s4 + 15
               else if trend = trend_down then s4 - 15
               else s4)
     in s5)"

text \<open>
  Lines 268 to 283: the rating and the stars, chosen by the first threshold that the
  unclamped score reaches.
\<close>

definition rating_tier :: "int \<Rightarrow> ustr \<times> int" where
  "rating_tier s =
     (if s \<ge> 80 then (rating_strong_buy, 5)
      else if s \<ge> 65 then (rating_buy, 4)
      else if s \<ge> 50 then (rating_neutral, 3)
      else if s \<ge> 35 then (rating_sell, 2)
      else (rating_strong_sell, 1))"

text \<open>
  \<open>technical_score\<close>: the score is clamped only in the returned dictionary, after the tier
  has been chosen.
\<close>

definition technical_score ::
  "ustr \<Rightarrow> ustr \<Rightarrow> ustr \<Rightarrow> ustr \<Rightarrow> ustr \<Rightarrow> score_data" where
  "technical_score macd_signal kdj_signal rsi_signal boll_signal trend =
    (let s = adjusted_score macd_signal kdj_signal rsi_signal boll_signal trend;
         tier = rating_tier s
     in \<lparr>score = min (max s 0) 100, rating = fst tier, stars = snd tier\<rparr>)"

section \<open>Numbers\<close>

text \<open>
  The series hold IEEE doubles. The model keeps the three special values that steer the
  control flow of the program (a comparison with NaN is false, a division by zero gives NaN
  or an infinity and raises nothing) and takes the arithmetic of finite values to be exact:
  a finite double is a real number, and rounding error, overflow and the sign of a zero
  are left out. Where the double arithmetic of the program overflows, it returns an infinity
  and the model a finite value; neither is NaN. The properties below are therefore stated
  about NaN, the special values and the control flow, and none of them asserts that a
  computed value is finite. Python integers are \<open>int\<close>.
\<close>

datatype fval = NaN | PInf | NInf | Fin real

fun is_fin :: "fval \<Rightarrow> bool" where
  "is_fin (Fin x) = True"
| "is_fin v = False"

fun the_fin :: "fval \<Rightarrow> real" where
  "the_fin (Fin x) = x"
| "the_fin v = 0"

fun fneg :: "fval \<Rightarrow> fval" where
  "fneg NaN = NaN"
| "fneg PInf = NInf"
| "fneg NInf = PInf"
| "fneg (Fin x) = Fin (- x)"

fun fabs :: "fval \<Rightarrow> fval" where
  "fabs NaN = NaN"
| "fabs PInf = PInf"
| "fabs NInf = PInf"
| "fabs (Fin x) = Fin \<bar>x\<bar>"

fun fadd :: "fval \<Rightarrow> fval \<Rightarrow> fval" where
  "fadd (Fin a) (Fin b) = Fin (a + b)"
| "fadd NaN v = NaN"
| "fadd v NaN = NaN"
| "fadd PInf NInf = NaN"
| "fadd NInf PInf = NaN"
| "fadd PInf v = PInf"
| "fadd v PInf = PInf"
| "fadd NInf v = NInf"
| "fadd v NInf = NInf"

definition fsub :: "fval \<Rightarrow> fval \<Rightarrow> fval" where
  "fsub a b = fadd a (fneg b)"

fun fmul :: "fval \<Rightarrow> fval \<Rightarrow> fval" where
  "fmul (Fin a) (Fin b) = Fin (a * b)"
| "fmul NaN v = NaN"
| "fmul v NaN = NaN"
| "fmul PInf (Fin b) = (if b = 0 then NaN else if b > 0 then PInf else NInf)"
| "fmul NInf (Fin b) = (if b = 0 then NaN else if b > 0 then NInf else PInf)"
| "fmul (Fin a) PInf = (if a = 0 then NaN else if a > 0 then PInf else NInf)"
| "fmul (Fin a) NInf = (if a = 0 then NaN else if a > 0 then NInf else PInf)"
| "fmul PInf PInf = PInf"
| "fmul PInf NInf = NInf"
| "fmul NInf PInf = NInf"
| "fmul NInf NInf = PInf"

fun fdiv :: "fval \<Rightarrow> fval \<Rightarrow> fval" where
  "fdiv (Fin a) (Fin b) =
     (if b = 0 then (if a = 0 then NaN else if a > 0 then PInf else NInf) else Fin (a / b))"
| "fdiv NaN v = NaN"
| "fdiv v NaN = NaN"
| "fdiv (Fin a) PInf = Fin 0"
| "fdiv (Fin a) NInf = Fin 0"
| "fdiv PInf (Fin b) = (if b \<ge> 0 then PInf else NInf)"
| "fdiv NInf (Fin b) = (if b \<ge> 0 then NInf else PInf)"
| "fdiv PInf PInf = NaN"
| "fdiv PInf NInf = NaN"
| "fdiv NInf PInf = NaN"
| "fdiv NInf NInf = NaN"

text \<open>The comparisons \<open><\<close> and \<open><=\<close>; every comparison with NaN is false.\<close>

fun flt :: "fval \<Rightarrow> fval \<Rightarrow> bool" where
  "flt (Fin a) (Fin b) = (a < b)"
| "flt NaN v = False"
| "flt v NaN = False"
| "flt v NInf = False"
| "flt PInf v = False"
| "flt NInf v = True"
| "flt v PInf = True"

fun fle :: "fval \<Rightarrow> fval \<Rightarrow> bool" where
  "fle (Fin a) (Fin b) = (a \<le> b)"
| "fle NaN v = False"
| "fle v NaN = False"
| "fle NInf v = True"
| "fle v PInf = True"
| "fle v NInf = False"
| "fle PInf v = False"

definition fgt :: "fval \<Rightarrow> fval \<Rightarrow> bool" where
  "fgt a b = flt b a"

definition fge :: "fval \<Rightarrow> fval \<Rightarrow> bool" where
  "fge a b = fle b a"

text \<open>
  \<open>round(x, n)\<close> on a NumPy double: NaN and the infinities are returned as they are, a
  finite value is scaled by \<open>10 ^ n\<close>, rounded to the nearest integer with ties to even,
  and scaled back.
\<close>

definition round_half_even :: "real \<Rightarrow> int" where
  "round_half_even x =
     (let f = \<lfloor>x\<rfloor>; d = x - of_int f
      in if d < 1 / 2 then f else if d > 1 / 2 then f + 1 else if even f then f else f + 1)"

definition fround :: "fval \<Rightarrow> nat \<Rightarrow> fval" where
  "fround v n = (case v of Fin x \<Rightarrow> Fin (of_int (round_half_even (x * 10 ^ n)) / 10 ^ n) | _ \<Rightarrow> v)"

text \<open>
  The format \<open>:.1f\<close> of an f-string: \<open>nan\<close>, \<open>inf\<close> and \<open>-inf\<close> for the special values,
  otherwise the sign, the integer part, a point and one decimal digit.
\<close>

fun digits :: "nat \<Rightarrow> ustr" where
  "digits n = (if n < 10 then [48 + n] else digits (n div 10) @ [48 + n mod 10])"

definition fmt1 :: "fval \<Rightarrow> ustr" where
  "fmt1 v =
     (case v of
        NaN \<Rightarrow> [0x6E, 0x61, 0x6E]
      | PInf \<Rightarrow> [0x69, 0x6E, 0x66]
      | NInf \<Rightarrow> [0x2D, 0x69, 0x6E, 0x66]
      | Fin x \<Rightarrow>
          (let t = nat (round_half_even (\<bar>x\<bar> * 10))
           in (if x < 0 then [0x2D] else []) @ digits (t div 10) @ [0x2E] @ digits (t mod 10)))"

section \<open>Errors\<close>

text \<open>
  The exceptions the module can raise: \<open>IndexError\<close> from \<open>.iloc\<close> out of bounds,
  \<open>KeyError\<close> from a missing column, \<open>ValueError\<close> from a smoothing parameter that
  \<open>ewm\<close> rejects. A function that can raise returns \<open>error + 'a\<close>.
\<close>

datatype error = IndexError | KeyError | ValueError

definition bnd :: "error + 'a \<Rightarrow> ('a \<Rightarrow> error + 'b) \<Rightarrow> error + 'b" where
  "bnd m f = (case m of Inl e \<Rightarrow> Inl e | Inr v \<Rightarrow> f v)"

text \<open>\<open>s.iloc[i]\<close>: a negative index counts from the end.\<close>

definition iloc :: "'a list \<Rightarrow> int \<Rightarrow> error + 'a" where
  "iloc xs i =
     (if 0 \<le> i \<and> i < int (length xs) then Inr (xs ! nat i)
      else if i < 0 \<and> - int (length xs) \<le> i then Inr (xs ! nat (int (length xs) + i))
      else Inl IndexError)"

declare digits.simps [simp del]

section \<open>Series operations of pandas\<close>

text \<open>
  A \<open>pd.Series\<close> of doubles is a list of \<open>fval\<close>. The series that meet in one expression
  come from the columns of one frame, so they carry the same index and an operation on two
  of them is elementwise.

  \<open>s.rolling(window=p).f()\<close> has \<open>min_periods = p\<close>: the result at position \<open>i\<close> is NaN
  unless the \<open>p\<close> values ending at \<open>i\<close> exist and are all finite (an infinity is turned
  into NaN before the aggregation), and is the aggregate of these values otherwise.
\<close>

definition rolling :: "(real list \<Rightarrow> fval) \<Rightarrow> nat \<Rightarrow> fval list \<Rightarrow> fval list" where
  "rolling agg p xs =
     map (\<lambda>i. let w = take p (drop (Suc i - p) xs)
              in if Suc i < p \<or> \<not> list_all is_fin w then NaN else agg (map the_fin w))
         [0..<length xs]"

definition agg_mean :: "real list \<Rightarrow> fval" where
  "agg_mean w = (if w = [] then NaN else Fin (sum_list w / real (length w)))"

definition agg_min :: "real list \<Rightarrow> fval" where
  "agg_min w = (if w = [] then NaN else Fin (fold min (tl w) (hd w)))"

definition agg_max :: "real list \<Rightarrow> fval" where
  "agg_max w = (if w = [] then NaN else Fin (fold max (tl w) (hd w)))"

text \<open>The sample standard deviation (one degree of freedom removed).\<close>

definition agg_std :: "real list \<Rightarrow> fval" where
  "agg_std w =
     (if length w \<le> 1 then NaN
      else let m = sum_list w / real (length w)
           in Fin (sqrt (sum_list (map (\<lambda>x. (x - m) ^ 2) w) / real (length w - 1))))"

text \<open>
  \<open>s.ewm(..., adjust=False).mean()\<close> with smoothing factor \<open>alpha\<close>. The running value
  \<open>weighted\<close> starts at the first element; a finite observation \<open>cur\<close> replaces it by
  \<open>(old_wt * weighted + alpha * cur) / (old_wt + alpha)\<close>, where \<open>old_wt\<close> is \<open>1 - alpha\<close>
  raised to the number of positions since the last observation; a missing value (NaN, or an
  infinity, which is turned into NaN first) carries the running value forward. On a series
  of finite values this is \<open>EMA[t] = alpha * x[t] + (1 - alpha) * EMA[t-1]\<close>.
\<close>

definition ewm_step :: "real \<Rightarrow> fval \<times> real \<Rightarrow> fval \<Rightarrow> fval \<times> real" where
  "ewm_step alpha st cur =
     (let weighted = fst st; old_wt = snd st
      in if is_fin weighted then
           (let old_wt' = old_wt * (1 - alpha)
            in if is_fin cur then
                 (if weighted \<noteq> cur
                  then Fin ((old_wt' * the_fin weighted + alpha * the_fin cur) / (old_wt' + alpha))
                  else weighted, 1)
               else (weighted, old_wt'))
         else if is_fin cur then (cur, old_wt)
         else (weighted, old_wt))"

fun ewm_run :: "real \<Rightarrow> fval \<times> real \<Rightarrow> fval list \<Rightarrow> fval list" where
  "ewm_run alpha st [] = []"
| "ewm_run alpha st (cur # rest) =
     (let st' = ewm_step alpha st cur in fst st' # ewm_run alpha st' rest)"

definition inf_to_nan :: "fval \<Rightarrow> fval" where
  "inf_to_nan v = (if is_fin v then v else NaN)"

definition ewm_mean :: "real \<Rightarrow> fval list \<Rightarrow> fval list" where
  "ewm_mean alpha xs =
     (case map inf_to_nan xs of [] \<Rightarrow> [] | v # rest \<Rightarrow> v # ewm_run alpha (v, 1) rest)"

text \<open>
  The two ways the module gives the smoothing factor: \<open>span\<close>, which must be at least 1, and
  \<open>com\<close> (centre of mass), which must not be negative; pandas raises \<open>ValueError\<close> otherwise.
\<close>

definition ewm_span :: "int \<Rightarrow> fval list \<Rightarrow> error + fval list" where
  "ewm_span sp xs =
     (if sp < 1 then Inl ValueError else Inr (ewm_mean (2 / (real_of_int sp + 1)) xs))"

definition ewm_com :: "int \<Rightarrow> fval list \<Rightarrow> error + fval list" where
  "ewm_com com xs =
     (if com < 0 then Inl ValueError else Inr (ewm_mean (1 / (1 + real_of_int com)) xs))"

definition fillna :: "fval \<Rightarrow> fval list \<Rightarrow> fval list" where
  "fillna v xs = map (\<lambda>x. if x = NaN then v else x) xs"

definition diff :: "fval list \<Rightarrow> fval list" where
  "diff xs = (case xs of [] \<Rightarrow> [] | x # rest \<Rightarrow> NaN # map2 fsub rest xs)"

definition shift1 :: "fval list \<Rightarrow> fval list" where
  "shift1 xs = (case xs of [] \<Rightarrow> [] | x # rest \<Rightarrow> NaN # butlast xs)"

text \<open>The maximum of a row, NaN entries skipped; NaN when the whole row is NaN.\<close>

definition fmax2 :: "fval \<Rightarrow> fval \<Rightarrow> fval" where
  "fmax2 a b = (if a = NaN then b else if b = NaN then a else if flt a b then b else a)"

definition row_max3 :: "fval list \<Rightarrow> fval list \<Rightarrow> fval list \<Rightarrow> fval list" where
  "row_max3 xs ys zs = map2 (\<lambda>x (y, z). fmax2 (fmax2 x y) z) xs (zip ys zs)"

section \<open>The indicator library\<close>

text \<open>\<open>calc_ma\<close>: one column \<open>MA{p}\<close> per period, keyed here by the period.\<close>

definition calc_ma :: "fval list \<Rightarrow> nat list \<Rightarrow> (nat \<times> fval list) list" where
  "calc_ma close periods = map (\<lambda>p. (p, rolling agg_mean p close)) periods"

definition calc_ema :: "fval list \<Rightarrow> int \<Rightarrow> error + fval list" where
  "calc_ema close period = ewm_span period close"

record macd_data =
  DIF :: "fval list"
  DEA :: "fval list"
  MACD :: "fval list"
  macd_sig :: ustr

text \<open>
  \<open>get_macd_signal\<close>. The length test looks at \<open>dif\<close> only; \<open>and\<close> evaluates its right
  operand, and with it the reads at \<open>-2\<close>, only when the left operand is true.
\<close>

definition get_macd_signal :: "fval list \<Rightarrow> fval list \<Rightarrow> error + ustr" where
  "get_macd_signal dif dea =
     (if length dif < 2 then Inr sig_insufficient
      else
        bnd (iloc dif (-1)) (\<lambda>d1. bnd (iloc dea (-1)) (\<lambda>e1.
        bnd (if fgt d1 e1
             then bnd (iloc dif (-2)) (\<lambda>d2. bnd (iloc dea (-2)) (\<lambda>e2. Inr (fle d2 e2)))
             else Inr False) (\<lambda>golden.
        if golden then Inr macd_golden
        else
          bnd (if flt d1 e1
               then bnd (iloc dif (-2)) (\<lambda>d2. bnd (iloc dea (-2)) (\<lambda>e2. Inr (fge d2 e2)))
               else Inr False) (\<lambda>death.
          if death then Inr macd_death
          else if fgt d1 e1 then
            (if fgt d1 (Fin 0) then Inr macd_bull_strong else Inr macd_bull_emerging)
          else
            (if flt d1 (Fin 0) then Inr macd_bear_strong else Inr macd_bear_emerging))))))"

definition calc_macd :: "fval list \<Rightarrow> int \<Rightarrow> int \<Rightarrow> int \<Rightarrow> error + macd_data" where
  "calc_macd close fast slow signal =
     bnd (ewm_span fast close) (\<lambda>ema_fast.
     bnd (ewm_span slow close) (\<lambda>ema_slow.
       let dif = map2 fsub ema_fast ema_slow
       in bnd (ewm_span signal dif) (\<lambda>dea.
            let macd = map (\<lambda>x. fmul x (Fin 2)) (map2 fsub dif dea)
            in bnd (get_macd_signal dif dea) (\<lambda>sg.
                 Inr \<lparr>DIF = dif, DEA = dea, MACD = macd, macd_sig = sg\<rparr>))))"

record kdj_data =
  K :: "fval list"
  D :: "fval list"
  J :: "fval list"
  kdj_sig :: ustr

definition get_kdj_signal :: "fval list \<Rightarrow> fval list \<Rightarrow> error + ustr" where
  "get_kdj_signal k d =
     (if length k < 2 then Inr sig_insufficient
      else
        bnd (iloc k (-1)) (\<lambda>k_val. bnd (iloc d (-1)) (\<lambda>d1.
        bnd (if fgt k_val d1
             then bnd (iloc k (-2)) (\<lambda>k2. bnd (iloc d (-2)) (\<lambda>d2. Inr (fle k2 d2)))
             else Inr False) (\<lambda>golden.
        if golden then
          (if flt k_val (Fin 20) then Inr kdj_oversold_golden
           else if flt k_val (Fin 50) then Inr kdj_golden
           else Inr kdj_high_golden)
        else
          bnd (if flt k_val d1
               then bnd (iloc k (-2)) (\<lambda>k2. bnd (iloc d (-2)) (\<lambda>d2. Inr (fge k2 d2)))
               else Inr False) (\<lambda>death.
          if death then
            (if fgt k_val (Fin 80) then Inr kdj_overbought_death
             else if fgt k_val (Fin 50) then Inr kdj_death
             else Inr kdj_low_death)
          else if fgt k_val (Fin 80) then Inr kdj_overbought_zone
          else if flt k_val (Fin 20) then Inr kdj_oversold_zone
          else Inr kdj_neutral)))))"

text \<open>
  \<open>calc_kdj\<close>. \<open>calc_rsv\<close> is its first four lines, the series \<open>rsv\<close> after \<open>fillna(50)\<close>.
\<close>

definition calc_rsv :: "fval list \<Rightarrow> fval list \<Rightarrow> fval list \<Rightarrow> nat \<Rightarrow> fval list" where
  "calc_rsv high low close n =
     (let low_n = rolling agg_min n low;
          high_n = rolling agg_max n high;
          rsv = map (\<lambda>q. fmul q (Fin 100))
                  (map2 fdiv (map2 fsub close low_n) (map2 fsub high_n low_n))
      in fillna (Fin 50) rsv)"

definition calc_kdj ::
  "fval list \<Rightarrow> fval list \<Rightarrow> fval list \<Rightarrow> nat \<Rightarrow> int \<Rightarrow> int \<Rightarrow> error + kdj_data" where
  "calc_kdj high low close n m1 m2 =
     (let rsv = calc_rsv high low close n
      in bnd (ewm_com (m1 - 1) rsv) (\<lambda>k.
         bnd (ewm_com (m2 - 1) k) (\<lambda>d.
           let j = map2 fsub (map (fmul (Fin 3)) k) (map (fmul (Fin 2)) d)
           in bnd (get_kdj_signal k d) (\<lambda>sg.
                Inr \<lparr>K = k, D = d, J = j, kdj_sig = sg\<rparr>))))"

record rsi_data =
  RSI :: "fval list"
  rsi_sig :: ustr

definition get_rsi_signal :: "fval list \<Rightarrow> error + ustr" where
  "get_rsi_signal rsi =
     (if length rsi < 1 then Inr sig_insufficient
      else
        bnd (iloc rsi (-1)) (\<lambda>rsi_val.
          if fgt rsi_val (Fin 80) then Inr rsi_severe_overbought
          else if fgt rsi_val (Fin 70) then Inr rsi_overbought
          else if flt rsi_val (Fin 20) then Inr rsi_severe_oversold
          else if flt rsi_val (Fin 30) then Inr rsi_oversold
          else Inr (rsi_neutral_prefix @ fmt1 rsi_val @ [0x29])))"

text \<open>\<open>calc_rsi\<close>; \<open>rsi_series\<close> is the series \<open>rsi\<close> of its first five lines.\<close>

definition rsi_series :: "fval list \<Rightarrow> nat \<Rightarrow> fval list" where
  "rsi_series close period =
     (let delta = diff close;
          gain = rolling agg_mean period (map (\<lambda>x. if fgt x (Fin 0) then x else Fin 0) delta);
          loss = rolling agg_mean period
                   (map fneg (map (\<lambda>x. if flt x (Fin 0) then x else Fin 0) delta));
          rs = map2 fdiv gain loss
      in map (\<lambda>r. fsub (Fin 100) (fdiv (Fin 100) (fadd (Fin 1) r))) rs)"

definition calc_rsi :: "fval list \<Rightarrow> nat \<Rightarrow> error + rsi_data" where
  "calc_rsi close period =
     (let rsi = rsi_series close period
      in bnd (get_rsi_signal rsi) (\<lambda>sg. Inr \<lparr>RSI = rsi, rsi_sig = sg\<rparr>))"

record boll_data =
  UPPER :: "fval list"
  MID :: "fval list"
  LOWER :: "fval list"
  boll_sig :: ustr

definition get_boll_signal ::
  "fval list \<Rightarrow> fval list \<Rightarrow> fval list \<Rightarrow> fval list \<Rightarrow> error + ustr" where
  "get_boll_signal close upper mid lower =
     (if length close < 1 then Inr sig_insufficient
      else
        bnd (iloc close (-1)) (\<lambda>price.
        bnd (iloc upper (-1)) (\<lambda>u.
        bnd (iloc mid (-1)) (\<lambda>m.
        bnd (iloc lower (-1)) (\<lambda>l.
          if fgt price u then Inr boll_above_upper
          else if flt price l then Inr boll_below_lower
          else if fgt price m then Inr boll_above_mid
          else Inr boll_below_mid)))))"

definition calc_boll :: "fval list \<Rightarrow> nat \<Rightarrow> int \<Rightarrow> error + boll_data" where
  "calc_boll close period std_dev =
     (let mid = rolling agg_mean period close;
          std = rolling agg_std period close;
          upper = map2 fadd mid (map (fmul (Fin (real_of_int std_dev))) std);
          lower = map2 fsub mid (map (fmul (Fin (real_of_int std_dev))) std)
      in bnd (get_boll_signal close upper mid lower) (\<lambda>sg.
           Inr \<lparr>UPPER = upper, MID = mid, LOWER = lower, boll_sig = sg\<rparr>))"

definition calc_atr :: "fval list \<Rightarrow> fval list \<Rightarrow> fval list \<Rightarrow> nat \<Rightarrow> fval list" where
  "calc_atr high low close period =
     (let tr1 = map2 fsub high low;
          tr2 = map fabs (map2 fsub high (shift1 close));
          tr3 = map fabs (map2 fsub low (shift1 close));
          tr = row_max3 tr1 tr2 tr3
      in rolling agg_mean period tr)"

definition calc_vol_ma :: "fval list \<Rightarrow> nat list \<Rightarrow> (nat \<times> fval list) list" where
  "calc_vol_ma volume periods = map (\<lambda>p. (p, rolling agg_mean p volume)) periods"

section \<open>Trend and levels\<close>

definition detect_trend :: "fval list \<Rightarrow> nat \<Rightarrow> nat \<Rightarrow> error + ustr" where
  "detect_trend close ma_short ma_long =
     (let ma_s = rolling agg_mean ma_short close;
          ma_l = rolling agg_mean ma_long close
      in if length ma_s < 1 \<or> length ma_l < 1 then Inr sig_insufficient
         else
           bnd (iloc ma_s (-1)) (\<lambda>s1. bnd (iloc ma_l (-1)) (\<lambda>l1.
           bnd (if fgt s1 l1 then bnd (iloc close (-1)) (\<lambda>c. Inr (fgt c s1)) else Inr False)
             (\<lambda>up.
           if up then Inr trend_up
           else
             bnd (if flt s1 l1 then bnd (iloc close (-1)) (\<lambda>c. Inr (flt c s1)) else Inr False)
               (\<lambda>down.
             if down then Inr trend_down else Inr trend_sideways)))))"

record levels =
  support :: fval
  resistance :: fval
  pivot :: fval

definition find_support_resistance ::
  "fval list \<Rightarrow> fval list \<Rightarrow> fval list \<Rightarrow> nat \<Rightarrow> error + levels" where
  "find_support_resistance high low close period =
     bnd (iloc (rolling agg_min period low) (-1)) (\<lambda>sup.
     bnd (iloc (rolling agg_max period high) (-1)) (\<lambda>res.
     bnd (iloc high (-1)) (\<lambda>h.
     bnd (iloc low (-1)) (\<lambda>l.
     bnd (iloc close (-1)) (\<lambda>c.
       let piv = fdiv (fadd (fadd h l) c) (Fin 3)
       in Inr \<lparr>support = fround sup 2, resistance = fround res 2, pivot = fround piv 2\<rparr>)))))"

section \<open>The entry point\<close>

text \<open>
  The frame is the list of its named columns. \<open>analyze_stock\<close> takes each of the four
  columns it reads under its Chinese name when the frame has one, and under its English
  name otherwise; a frame with neither raises \<open>KeyError\<close>.
\<close>

type_synonym frame = "(ustr \<times> fval list) list"

definition column :: "frame \<Rightarrow> ustr \<Rightarrow> ustr \<Rightarrow> error + fval list" where
  "column df zh en =
     (case map_of df zh of
        Some s \<Rightarrow> Inr s
      | None \<Rightarrow> (case map_of df en of Some s \<Rightarrow> Inr s | None \<Rightarrow> Inl KeyError))"

definition col_close_zh :: ustr where "col_close_zh = [0x6536, 0x76D8]"
definition col_close_en :: ustr where "col_close_en = [0x63, 0x6C, 0x6F, 0x73, 0x65]"
definition col_high_zh :: ustr where "col_high_zh = [0x6700, 0x9AD8]"
definition col_high_en :: ustr where "col_high_en = [0x68, 0x69, 0x67, 0x68]"
definition col_low_zh :: ustr where "col_low_zh = [0x6700, 0x4F4E]"
definition col_low_en :: ustr where "col_low_en = [0x6C, 0x6F, 0x77]"
definition col_volume_zh :: ustr where "col_volume_zh = [0x6210, 0x4EA4, 0x91CF]"
definition col_volume_en :: ustr where "col_volume_en = [0x76, 0x6F, 0x6C, 0x75, 0x6D, 0x65]"

record price_info =
  current :: fval
  change_pct :: fval

record macd_view =
  macd_DIF :: fval
  macd_DEA :: fval
  macd_signal :: ustr

record kdj_view =
  kdj_K :: fval
  kdj_D :: fval
  kdj_J :: fval
  kdj_signal :: ustr

record rsi_view =
  rsi_value :: fval
  rsi_signal :: ustr

record boll_view =
  boll_upper :: fval
  boll_mid :: fval
  boll_lower :: fval
  boll_signal :: ustr

record indicator_views =
  ind_MACD :: macd_view
  ind_KDJ :: kdj_view
  ind_RSI :: rsi_view
  ind_BOLL :: boll_view
  ind_ATR :: fval

record analysis_bundle =
  b_price :: price_info
  b_trend :: ustr
  b_support_resistance :: levels
  b_indicators :: indicator_views
  b_score :: score_data

text \<open>
  \<open>analyze_stock\<close>, with the default parameters of the functions it calls written out.
  The reads of the returned dictionary are made in the order of the source.
\<close>

definition analyze_stock :: "frame \<Rightarrow> error + analysis_bundle" where
  "analyze_stock df =
     bnd (column df col_close_zh col_close_en) (\<lambda>close.
     bnd (column df col_high_zh col_high_en) (\<lambda>high.
     bnd (column df col_low_zh col_low_en) (\<lambda>low.
     bnd (column df col_volume_zh col_volume_en) (\<lambda>volume.
       let ma_data = calc_ma close [5, 10, 20, 60, 120]
       in
     bnd (calc_macd close 12 26 9) (\<lambda>macd_data.
     bnd (calc_kdj high low close 9 3 3) (\<lambda>kdj_data.
     bnd (calc_rsi close 14) (\<lambda>rsi_data.
     bnd (calc_boll close 20 2) (\<lambda>boll_data.
       let atr = calc_atr high low close 14
       in
     bnd (detect_trend close 20 60) (\<lambda>trend.
     bnd (find_support_resistance high low close 20) (\<lambda>sr.
       let score_data =
             technical_score (macd_sig macd_data) (kdj_sig kdj_data) (rsi_sig rsi_data)
               (boll_sig boll_data) trend
       in
     bnd (iloc close (-1)) (\<lambda>c1.
     bnd (iloc close (-1)) (\<lambda>c1'.
     bnd (iloc close (-2)) (\<lambda>c2.
     bnd (iloc (DIF macd_data) (-1)) (\<lambda>dif1.
     bnd (iloc (DEA macd_data) (-1)) (\<lambda>dea1.
     bnd (iloc (K kdj_data) (-1)) (\<lambda>k1.
     bnd (iloc (D kdj_data) (-1)) (\<lambda>d1.
     bnd (iloc (J kdj_data) (-1)) (\<lambda>j1.
     bnd (iloc (RSI rsi_data) (-1)) (\<lambda>rsi1.
     bnd (iloc (UPPER boll_data) (-1)) (\<lambda>upper1.
     bnd (iloc (MID boll_data) (-1)) (\<lambda>mid1.
     bnd (iloc (LOWER boll_data) (-1)) (\<lambda>lower1.
     bnd (iloc atr (-1)) (\<lambda>atr1.
       Inr \<lparr>b_price =
              \<lparr>current = fround c1 2,
               change_pct = fround (fmul (fsub (fdiv c1' c2) (Fin 1)) (Fin 100)) 2\<rparr>,
            b_trend = trend,
            b_support_resistance = sr,
            b_indicators =
              \<lparr>ind_MACD = \<lparr>macd_DIF = fround dif1 4, macd_DEA = fround dea1 4,
                            macd_signal = macd_sig macd_data\<rparr>,
               ind_KDJ = \<lparr>kdj_K = fround k1 2, kdj_D = fround d1 2, kdj_J = fround j1 2,
                           kdj_signal = kdj_sig kdj_data\<rparr>,
               ind_RSI = \<lparr>rsi_value = fround rsi1 2, rsi_signal = rsi_sig rsi_data\<rparr>,
               ind_BOLL = \<lparr>boll_upper = fround upper1 2, boll_mid = fround mid1 2,
                            boll_lower = fround lower1 2, boll_signal = boll_sig boll_data\<rparr>,
               ind_ATR = fround atr1 2\<rparr>,
            b_score = score_data\<rparr>)))))))))))))))))))))))"

section \<open>Inputs\<close>

text \<open>
  \<open>frame_columns df close high low volume\<close>: the frame has the four columns
  \<open>analyze_stock\<close> reads, under either name, and they have one length, as the columns of
  a \<open>DataFrame\<close> do.
\<close>

definition frame_columns ::
  "frame \<Rightarrow> fval list \<Rightarrow> fval list \<Rightarrow> fval list \<Rightarrow> fval list \<Rightarrow> bool" where
  "frame_columns df close high low volume \<longleftrightarrow>
     column df col_close_zh col_close_en = Inr close \<and>
     column df col_high_zh col_high_en = Inr high \<and>
     column df col_low_zh col_low_en = Inr low \<and>
     column df col_volume_zh col_volume_en = Inr volume \<and>
     length high = length close \<and> length low = length close \<and> length volume = length close"

text \<open>
  Concrete inputs: a frame of one row, and a series that starts at 8 and stays at 11 for the
  nine bars that follow.
\<close>

definition one_bar_frame :: frame where
  "one_bar_frame =
     [(col_close_en, [Fin 10]), (col_high_en, [Fin 11]), (col_low_en, [Fin 9]),
      (col_volume_en, [Fin 1000])]"

definition gap_then_flat :: "fval list" where
  "gap_then_flat = map Fin [8, 11, 11, 11, 11, 11, 11, 11, 11, 11]"

text \<open>
  A frame of 120 rows whose prices never move, a frame of five rows with rising prices, and
  the bundle that \<open>analyze_stock\<close> returns on the latter.
\<close>

definition flat_frame_120 :: frame where
  "flat_frame_120 =
     [(col_close_en, replicate 120 (Fin 10)), (col_high_en, replicate 120 (Fin 10)),
      (col_low_en, replicate 120 (Fin 10)), (col_volume_en, replicate 120 (Fin 1000))]"

definition five_bar_frame :: frame where
  "five_bar_frame =
     [(col_close_en, map Fin [10, 11, 12, 13, 14]), (col_high_en, map Fin [11, 12, 13, 14, 15]),
      (col_low_en, map Fin [9, 10, 11, 12, 13]),
      (col_volume_en, map Fin [1000, 1000, 1000, 1000, 1000])]"

definition five_bar_bundle :: analysis_bundle where
  "five_bar_bundle =
     \<lparr>b_price = \<lparr>current = Fin 14, change_pct = Fin (769 / 100)\<rparr>,
      b_trend = trend_sideways,
      b_support_resistance = \<lparr>support = NaN, resistance = NaN, pivot = Fin 14\<rparr>,
      b_indicators =
        \<lparr>ind_MACD = \<lparr>macd_DIF = Fin (6315 / 10000), macd_DEA = Fin (2282 / 10000),
                      macd_signal = macd_bull_strong\<rparr>,
         ind_KDJ = \<lparr>kdj_K = Fin 50, kdj_D = Fin 50, kdj_J = Fin 50, kdj_signal = kdj_neutral\<rparr>,
         ind_RSI = \<lparr>rsi_value = NaN,
                     rsi_signal = [0x4E2D, 0x6027, 0x28, 0x6E, 0x61, 0x6E, 0x29]\<rparr>,
         ind_BOLL = \<lparr>boll_upper = NaN, boll_mid = NaN, boll_lower = NaN,
                      boll_signal = boll_below_mid\<rparr>,
         ind_ATR = NaN\<rparr>,
      b_score = \<lparr>score = 60, rating = rating_neutral, stars = 3\<rparr>\<rparr>"

section \<open>Basic facts\<close>

lemmas kw_defs = kw_golden_def kw_bull_def kw_death_def kw_bear_def kw_strong_buy_def
  kw_buy_def kw_strong_sell_def kw_sell_def kw_oversold_def kw_overbought_def
  kw_bias_up_def kw_bias_down_def

lemmas sig_defs = sig_insufficient_def macd_golden_def macd_death_def macd_bull_strong_def
  macd_bull_emerging_def macd_bear_strong_def macd_bear_emerging_def kdj_oversold_golden_def
  kdj_golden_def kdj_high_golden_def kdj_overbought_death_def kdj_death_def kdj_low_death_def
  kdj_overbought_zone_def kdj_oversold_zone_def kdj_neutral_def rsi_severe_overbought_def
  rsi_overbought_def rsi_severe_oversold_def rsi_oversold_def rsi_neutral_prefix_def
  boll_above_upper_def boll_below_lower_def boll_above_mid_def boll_below_mid_def
  trend_up_def trend_down_def trend_sideways_def

lemma bnd_Inr [simp]: "bnd (Inr v) f = f v"
  by (simp add: bnd_def)

lemma bnd_Inl [simp]: "bnd (Inl e) f = Inl e"
  by (simp add: bnd_def)

lemma iloc_last: "xs \<noteq> [] \<Longrightarrow> iloc xs (-1) = Inr (last xs)"
  by (cases xs rule: rev_cases) (simp_all add: iloc_def nat_add_distrib)

lemma iloc_prev: "2 \<le> length xs \<Longrightarrow> iloc xs (-2) = Inr (xs ! (length xs - 2))"
  by (simp add: iloc_def nat_diff_distrib' of_nat_diff)

lemma flt_asym: "flt a b \<Longrightarrow> \<not> flt b a"
  by (cases a; cases b) simp_all

lemma fge_not_flt: "fge a b \<Longrightarrow> \<not> flt a b"
  by (cases a; cases b) (simp_all add: fge_def)

lemma fle_not_fgt: "fle a b \<Longrightarrow> \<not> fgt a b"
  by (cases a; cases b) (simp_all add: fgt_def)

lemma fge_trans_lt: "fge a (Fin x) \<Longrightarrow> y \<le> x \<Longrightarrow> \<not> flt a (Fin y)"
  by (cases a) (simp_all add: fge_def)

lemma fle_trans_gt: "fle a (Fin x) \<Longrightarrow> x \<le> y \<Longrightarrow> \<not> fgt a (Fin y)"
  by (cases a) (simp_all add: fgt_def)

lemmas rating_defs = rating_strong_buy_def rating_buy_def rating_neutral_def
  rating_sell_def rating_strong_sell_def

lemmas col_defs = col_close_zh_def col_close_en_def col_high_zh_def col_high_en_def
  col_low_zh_def col_low_en_def col_volume_zh_def col_volume_en_def

lemma length_rolling [simp]: "length (rolling agg p xs) = length xs"
  by (simp add: rolling_def)

lemma rolling_nth:
  "i < length xs \<Longrightarrow>
   rolling agg p xs ! i =
     (if Suc i < p \<or> \<not> list_all is_fin (take p (drop (Suc i - p) xs)) then NaN
      else agg (map the_fin (take p (drop (Suc i - p) xs))))"
  by (simp add: rolling_def Let_def)

lemma rolling_leading: "i < length xs \<Longrightarrow> Suc i < p \<Longrightarrow> rolling agg p xs ! i = NaN"
  by (simp add: rolling_nth)

lemma rolling_eq_Nil [simp]: "rolling agg p xs = [] \<longleftrightarrow> xs = []"
  by (simp add: rolling_def)

lemma rolling_last:
  "xs \<noteq> [] \<Longrightarrow> last (rolling agg p xs) = rolling agg p xs ! (length xs - 1)"
  by (simp add: last_conv_nth)

lemma rolling_last_short:
  "xs \<noteq> [] \<Longrightarrow> length xs < p \<Longrightarrow> last (rolling agg p xs) = NaN"
  by (simp add: rolling_last rolling_leading)

lemma window_map:
  assumes "i < length xs" "p \<le> Suc i"
    and "\<And>j. Suc i - p \<le> j \<Longrightarrow> j \<le> i \<Longrightarrow> xs ! j = Fin (f j)"
  shows "take p (drop (Suc i - p) xs) = map (\<lambda>j. Fin (f j)) [Suc i - p..<Suc i]"
proof (rule nth_equalityI)
  show "length (take p (drop (Suc i - p) xs)) = length (map (\<lambda>j. Fin (f j)) [Suc i - p..<Suc i])"
    using assms(1,2) by (simp add: min_def) arith
next
  fix t assume "t < length (take p (drop (Suc i - p) xs))"
  then have "t < p" by simp
  then have t: "Suc i - p + t \<le> i" "Suc i - p + t < length xs" "t < Suc i - (Suc i - p)"
    "Suc i - p \<le> Suc i - p + t"
    using assms(1,2) by arith+
  have "take p (drop (Suc i - p) xs) ! t = xs ! (Suc i - p + t)"
    using \<open>t < p\<close> t(2) by simp
  also have "\<dots> = Fin (f (Suc i - p + t))"
    using assms(3) t(4,1) by blast
  also have "\<dots> = map (\<lambda>j. Fin (f j)) [Suc i - p..<Suc i] ! t"
    using t(3) by (simp del: upt_Suc)
  finally show "take p (drop (Suc i - p) xs) ! t = map (\<lambda>j. Fin (f j)) [Suc i - p..<Suc i] ! t" .
qed

lemma rolling_nth_fin:
  assumes "i < length xs" "p \<le> Suc i"
    and "\<And>j. Suc i - p \<le> j \<Longrightarrow> j \<le> i \<Longrightarrow> xs ! j = Fin (f j)"
  shows "rolling agg p xs ! i = agg (map f [Suc i - p..<Suc i])"
proof -
  have w: "take p (drop (Suc i - p) xs) = map (\<lambda>j. Fin (f j)) [Suc i - p..<Suc i]"
    using assms by (rule window_map)
  have "list_all is_fin (map (\<lambda>j. Fin (f j)) [Suc i - p..<Suc i])"
    by (simp add: list_all_iff)
  moreover have "map the_fin (map (\<lambda>j. Fin (f j)) [Suc i - p..<Suc i]) = map f [Suc i - p..<Suc i]"
    by simp
  ultimately show ?thesis
    using assms(1,2) by (simp add: rolling_nth w del: map_map)
qed

lemma length_ewm_run [simp]: "length (ewm_run a st xs) = length xs"
  by (induction xs arbitrary: st) (simp_all add: Let_def)

lemma length_ewm_mean [simp]: "length (ewm_mean a xs) = length xs"
  by (cases xs) (simp_all add: ewm_mean_def)

lemma length_fillna [simp]: "length (fillna v xs) = length xs"
  by (simp add: fillna_def)

lemma length_diff [simp]: "length (diff xs) = length xs"
  by (cases xs) (simp_all add: diff_def)

lemma length_shift1 [simp]: "length (shift1 xs) = length xs"
  by (cases xs) (simp_all add: shift1_def)

lemma length_row_max3 [simp]:
  "length (row_max3 xs ys zs) = min (length xs) (min (length ys) (length zs))"
  by (simp add: row_max3_def)

lemma length_calc_rsv [simp]:
  "length (calc_rsv high low close n) = min (length close) (min (length high) (length low))"
  by (auto simp add: calc_rsv_def Let_def)

lemma length_rsi_series [simp]: "length (rsi_series close p) = length close"
  by (simp add: rsi_series_def Let_def)

lemma length_calc_atr [simp]:
  "length (calc_atr high low close p) = min (length high) (min (length low) (length close))"
  by (cases close) (auto simp add: calc_atr_def Let_def)

text \<open>Every classifier returns a label when its series are as long as each other.\<close>

lemma get_macd_signal_total:
  "length dea = length dif \<Longrightarrow> \<exists>sg. get_macd_signal dif dea = Inr sg"
proof (cases "length dif < 2")
  case True
  then show ?thesis by (simp add: get_macd_signal_def)
next
  case False
  assume "length dea = length dif"
  with False have "2 \<le> length dif" "2 \<le> length dea" "dif \<noteq> []" "dea \<noteq> []" by auto
  then show ?thesis
    unfolding get_macd_signal_def by (simp add: iloc_last iloc_prev)
qed

lemma get_macd_signal_label:
  "get_macd_signal dif dea = Inr sg \<Longrightarrow> 2 \<le> length dif \<Longrightarrow> length dea = length dif \<Longrightarrow>
   sg \<in> set [macd_golden, macd_death, macd_bull_strong, macd_bull_emerging,
              macd_bear_strong, macd_bear_emerging]"
proof -
  assume a: "get_macd_signal dif dea = Inr sg" "2 \<le> length dif" "length dea = length dif"
  then have "2 \<le> length dea" "dif \<noteq> []" "dea \<noteq> []" by auto
  with a show ?thesis
    unfolding get_macd_signal_def by (auto simp add: iloc_last iloc_prev split: if_splits)
qed

lemma get_kdj_signal_total:
  "length d = length k \<Longrightarrow> \<exists>sg. get_kdj_signal k d = Inr sg"
proof (cases "length k < 2")
  case True
  then show ?thesis by (simp add: get_kdj_signal_def)
next
  case False
  assume "length d = length k"
  with False have "2 \<le> length k" "2 \<le> length d" "k \<noteq> []" "d \<noteq> []" by auto
  then show ?thesis
    unfolding get_kdj_signal_def by (simp add: iloc_last iloc_prev)
qed

lemma get_kdj_signal_label:
  "get_kdj_signal k d = Inr sg \<Longrightarrow> 2 \<le> length k \<Longrightarrow> length d = length k \<Longrightarrow>
   sg \<in> set [kdj_oversold_golden, kdj_golden, kdj_high_golden, kdj_overbought_death,
              kdj_death, kdj_low_death, kdj_overbought_zone, kdj_oversold_zone, kdj_neutral]"
proof -
  assume a: "get_kdj_signal k d = Inr sg" "2 \<le> length k" "length d = length k"
  then have "2 \<le> length d" "k \<noteq> []" "d \<noteq> []" by auto
  with a show ?thesis
    unfolding get_kdj_signal_def by (auto simp add: iloc_last iloc_prev split: if_splits)
qed

lemma get_rsi_signal_total: "\<exists>sg. get_rsi_signal rsi = Inr sg"
  by (cases "rsi = []") (simp_all add: get_rsi_signal_def iloc_last)

lemma get_boll_signal_total:
  "length upper = length close \<Longrightarrow> length mid = length close \<Longrightarrow> length lower = length close \<Longrightarrow>
   \<exists>sg. get_boll_signal close upper mid lower = Inr sg"
proof (cases "close = []")
  case True
  then show ?thesis by (simp add: get_boll_signal_def)
next
  case False
  assume "length upper = length close" "length mid = length close" "length lower = length close"
  with False have "upper \<noteq> []" "mid \<noteq> []" "lower \<noteq> []" by auto
  with False show ?thesis by (simp add: get_boll_signal_def iloc_last)
qed

lemma detect_trend_total: "\<exists>t. detect_trend close a b = Inr t"
  by (cases "close = []") (simp_all add: detect_trend_def Let_def iloc_last)

lemma find_support_resistance_total:
  "close \<noteq> [] \<Longrightarrow> length high = length close \<Longrightarrow> length low = length close \<Longrightarrow>
   \<exists>sr. find_support_resistance high low close p = Inr sr"
proof -
  assume a: "close \<noteq> []" "length high = length close" "length low = length close"
  then have "high \<noteq> []" "low \<noteq> []" by auto
  with a show ?thesis by (simp add: find_support_resistance_def Let_def iloc_last)
qed

lemma calc_macd_total:
  assumes "1 \<le> fast" "1 \<le> slow" "1 \<le> signal"
  shows "\<exists>r. calc_macd close fast slow signal = Inr r \<and> length (DIF r) = length close
            \<and> length (DEA r) = length close
            \<and> get_macd_signal (DIF r) (DEA r) = Inr (macd_sig r)"
proof -
  define dif where "dif = map2 fsub (ewm_mean (2 / (real_of_int fast + 1)) close)
                                  (ewm_mean (2 / (real_of_int slow + 1)) close)"
  define dea where "dea = ewm_mean (2 / (real_of_int signal + 1)) dif"
  have len: "length dif = length close" "length dea = length dif"
    by (simp_all add: dif_def dea_def)
  then obtain sg where sg: "get_macd_signal dif dea = Inr sg"
    using get_macd_signal_total by blast
  have "calc_macd close fast slow signal =
          Inr \<lparr>DIF = dif, DEA = dea,
               MACD = map (\<lambda>x. fmul x (Fin 2)) (map2 fsub dif dea), macd_sig = sg\<rparr>"
    using assms sg by (simp add: calc_macd_def ewm_span_def Let_def dif_def dea_def)
  then show ?thesis using len sg by simp
qed

lemma calc_kdj_total:
  assumes "1 \<le> m1" "1 \<le> m2" "length high = length close" "length low = length close"
  shows "\<exists>r. calc_kdj high low close n m1 m2 = Inr r
            \<and> K r = ewm_mean (1 / (1 + real_of_int (m1 - 1))) (calc_rsv high low close n)
            \<and> D r = ewm_mean (1 / (1 + real_of_int (m2 - 1))) (K r)
            \<and> J r = map2 fsub (map (fmul (Fin 3)) (K r)) (map (fmul (Fin 2)) (D r))
            \<and> get_kdj_signal (K r) (D r) = Inr (kdj_sig r)"
proof -
  define k where "k = ewm_mean (1 / (1 + real_of_int (m1 - 1))) (calc_rsv high low close n)"
  define d where "d = ewm_mean (1 / (1 + real_of_int (m2 - 1))) k"
  have "length d = length k" by (simp add: d_def)
  then obtain sg where sg: "get_kdj_signal k d = Inr sg"
    using get_kdj_signal_total by blast
  have "calc_kdj high low close n m1 m2 =
          Inr \<lparr>K = k, D = d, J = map2 fsub (map (fmul (Fin 3)) k) (map (fmul (Fin 2)) d),
               kdj_sig = sg\<rparr>"
    using assms(1,2) sg by (simp add: calc_kdj_def ewm_com_def Let_def k_def d_def)
  then show ?thesis using sg by (simp add: k_def d_def)
qed

lemma calc_rsi_total:
  "\<exists>r. calc_rsi close p = Inr r \<and> RSI r = rsi_series close p
       \<and> get_rsi_signal (rsi_series close p) = Inr (rsi_sig r)"
proof -
  obtain sg where sg: "get_rsi_signal (rsi_series close p) = Inr sg"
    using get_rsi_signal_total by blast
  then have "calc_rsi close p = Inr \<lparr>RSI = rsi_series close p, rsi_sig = sg\<rparr>"
    by (simp add: calc_rsi_def Let_def)
  then show ?thesis using sg by simp
qed

lemma calc_boll_total:
  "\<exists>r. calc_boll close p k = Inr r
       \<and> MID r = rolling agg_mean p close
       \<and> UPPER r = map2 fadd (rolling agg_mean p close)
                     (map (fmul (Fin (real_of_int k))) (rolling agg_std p close))
       \<and> LOWER r = map2 fsub (rolling agg_mean p close)
                     (map (fmul (Fin (real_of_int k))) (rolling agg_std p close))
       \<and> get_boll_signal close (UPPER r) (MID r) (LOWER r) = Inr (boll_sig r)"
proof -
  define mid where "mid = rolling agg_mean p close"
  define upper where "upper = map2 fadd mid (map (fmul (Fin (real_of_int k))) (rolling agg_std p close))"
  define lower where "lower = map2 fsub mid (map (fmul (Fin (real_of_int k))) (rolling agg_std p close))"
  have "length upper = length close" "length mid = length close" "length lower = length close"
    by (simp_all add: upper_def mid_def lower_def)
  then obtain sg where sg: "get_boll_signal close upper mid lower = Inr sg"
    using get_boll_signal_total by blast
  then have "calc_boll close p k = Inr \<lparr>UPPER = upper, MID = mid, LOWER = lower, boll_sig = sg\<rparr>"
    by (simp add: calc_boll_def Let_def upper_def mid_def lower_def)
  then show ?thesis using sg by (simp add: upper_def mid_def lower_def)
qed

text \<open>What \<open>analyze_stock\<close> returns on a frame of at least two rows.\<close>

lemma analyze_stock_total:
  assumes cols: "frame_columns df close high low volume" and len: "2 \<le> length close"
  shows "\<exists>b rm rk rr rb.
           analyze_stock df = Inr b
         \<and> calc_macd close 12 26 9 = Inr rm \<and> calc_kdj high low close 9 3 3 = Inr rk
         \<and> calc_rsi close 14 = Inr rr \<and> calc_boll close 20 2 = Inr rb
         \<and> current (b_price b) = fround (last close) 2
         \<and> change_pct (b_price b) =
             fround (fmul (fsub (fdiv (last close) (close ! (length close - 2))) (Fin 1)) (Fin 100)) 2
         \<and> macd_DIF (ind_MACD (b_indicators b)) = fround (last (DIF rm)) 4
         \<and> macd_DEA (ind_MACD (b_indicators b)) = fround (last (DEA rm)) 4
         \<and> macd_signal (ind_MACD (b_indicators b)) = macd_sig rm
         \<and> kdj_K (ind_KDJ (b_indicators b)) = fround (last (K rk)) 2
         \<and> kdj_D (ind_KDJ (b_indicators b)) = fround (last (D rk)) 2
         \<and> kdj_J (ind_KDJ (b_indicators b)) = fround (last (J rk)) 2
         \<and> kdj_signal (ind_KDJ (b_indicators b)) = kdj_sig rk
         \<and> rsi_value (ind_RSI (b_indicators b)) = fround (last (RSI rr)) 2
         \<and> rsi_signal (ind_RSI (b_indicators b)) = rsi_sig rr
         \<and> boll_upper (ind_BOLL (b_indicators b)) = fround (last (UPPER rb)) 2
         \<and> boll_mid (ind_BOLL (b_indicators b)) = fround (last (MID rb)) 2
         \<and> boll_lower (ind_BOLL (b_indicators b)) = fround (last (LOWER rb)) 2
         \<and> boll_signal (ind_BOLL (b_indicators b)) = boll_sig rb
         \<and> ind_ATR (b_indicators b) = fround (last (calc_atr high low close 14)) 2"
proof -
  have c: "column df col_close_zh col_close_en = Inr close"
    "column df col_high_zh col_high_en = Inr high"
    "column df col_low_zh col_low_en = Inr low"
    "column df col_volume_zh col_volume_en = Inr volume"
    and l: "length high = length close" "length low = length close"
    using cols by (simp_all add: frame_columns_def)
  have ne: "close \<noteq> []" "high \<noteq> []" "low \<noteq> []" using len l by auto
  obtain rm where rm: "calc_macd close 12 26 9 = Inr rm" "length (DIF rm) = length close"
    "length (DEA rm) = length close"
    using calc_macd_total[of 12 26 9 close] by auto
  obtain rk where rk: "calc_kdj high low close 9 3 3 = Inr rk"
    "K rk = ewm_mean (1 / (1 + real_of_int (3 - 1))) (calc_rsv high low close 9)"
    "D rk = ewm_mean (1 / (1 + real_of_int (3 - 1))) (K rk)"
    "J rk = map2 fsub (map (fmul (Fin 3)) (K rk)) (map (fmul (Fin 2)) (D rk))"
    using calc_kdj_total[of 3 3 high close low 9] l by auto
  obtain rr where rr: "calc_rsi close 14 = Inr rr" "RSI rr = rsi_series close 14"
    using calc_rsi_total[of close 14] by auto
  obtain rb where rb: "calc_boll close 20 2 = Inr rb" "MID rb = rolling agg_mean 20 close"
    "UPPER rb = map2 fadd (rolling agg_mean 20 close)
                     (map (fmul (Fin (real_of_int 2))) (rolling agg_std 20 close))"
    "LOWER rb = map2 fsub (rolling agg_mean 20 close)
                     (map (fmul (Fin (real_of_int 2))) (rolling agg_std 20 close))"
    using calc_boll_total[of close 20 2] by auto
  obtain t where t: "detect_trend close 20 60 = Inr t"
    using detect_trend_total by blast
  obtain sr where sr: "find_support_resistance high low close 20 = Inr sr"
    using find_support_resistance_total[OF ne(1) l] by blast
  have lens: "length (DIF rm) = length close" "length (DEA rm) = length close"
    "length (K rk) = length close" "length (D rk) = length close" "length (J rk) = length close"
    "length (RSI rr) = length close" "length (UPPER rb) = length close"
    "length (MID rb) = length close" "length (LOWER rb) = length close"
    "length (calc_atr high low close 14) = length close"
    using rm(2,3) l by (simp_all add: rk(2,3,4) rr(2) rb(2,3,4))
  have ne2: "DIF rm \<noteq> []" "DEA rm \<noteq> []" "K rk \<noteq> []" "D rk \<noteq> []" "J rk \<noteq> []"
    "RSI rr \<noteq> []" "UPPER rb \<noteq> []" "MID rb \<noteq> []" "LOWER rb \<noteq> []"
    "calc_atr high low close 14 \<noteq> []"
    using lens ne(1) by (metis length_0_conv)+
  show ?thesis
    unfolding analyze_stock_def
    by (simp add: c rm(1) rk(1) rr(1) rb(1) t sr Let_def iloc_last iloc_prev ne ne2 len)
qed

lemma analyze_stock_short:
  assumes cols: "frame_columns df close high low volume" and len: "length close < 2"
  shows "analyze_stock df = Inl IndexError"
proof -
  have c: "column df col_close_zh col_close_en = Inr close"
    "column df col_high_zh col_high_en = Inr high"
    "column df col_low_zh col_low_en = Inr low"
    "column df col_volume_zh col_volume_en = Inr volume"
    and l: "length high = length close" "length low = length close"
    using cols by (simp_all add: frame_columns_def)
  obtain rm where rm: "calc_macd close 12 26 9 = Inr rm" "length (DIF rm) = length close"
    "length (DEA rm) = length close"
    using calc_macd_total[of 12 26 9 close] by auto
  obtain rk where rk: "calc_kdj high low close 9 3 3 = Inr rk"
    using calc_kdj_total[of 3 3 high close low 9] l by auto
  obtain rr where rr: "calc_rsi close 14 = Inr rr"
    using calc_rsi_total[of close 14] by auto
  obtain rb where rb: "calc_boll close 20 2 = Inr rb"
    using calc_boll_total[of close 20 2] by auto
  obtain t where t: "detect_trend close 20 60 = Inr t"
    using detect_trend_total by blast
  show ?thesis
  proof (cases "close = []")
    case True
    then have "low = []" using l by simp
    then have "find_support_resistance high low close 20 = Inl IndexError"
      by (simp add: find_support_resistance_def iloc_def)
    then show ?thesis
      unfolding analyze_stock_def by (simp add: c rm(1) rk(1) rr(1) rb(1) t Let_def)
  next
    case False
    then obtain sr where sr: "find_support_resistance high low close 20 = Inr sr"
      using find_support_resistance_total[OF _ l] by blast
    have "iloc close (-2) = Inl IndexError" using len by (simp add: iloc_def)
    then show ?thesis
      unfolding analyze_stock_def
      by (simp add: c rm(1) rk(1) rr(1) rb(1) t sr Let_def iloc_last False)
  qed
qed

lemma map_of_keyed:
  "p \<in> set ps \<Longrightarrow> map_of (map (\<lambda>q. (q, f q)) ps) p = Some (f p)"
  by (induction ps) auto

lemma fadd_NaN [simp]: "fadd v NaN = NaN" "fadd NaN v = NaN"
  by (cases v; simp)+

lemma fmul_NaN [simp]: "fmul v NaN = NaN" "fmul NaN v = NaN"
  by (cases v; simp)+

lemma fdiv_NaN [simp]: "fdiv v NaN = NaN" "fdiv NaN v = NaN"
  by (cases v; simp)+

lemma rolling_zero: "i < length xs \<Longrightarrow> rolling agg 0 xs ! i = agg []"
  by (simp add: rolling_nth)

lemma rsi_series_leading:
  "i < length close \<Longrightarrow> Suc i < p \<Longrightarrow> rsi_series close p ! i = NaN"
  by (simp add: rsi_series_def Let_def rolling_leading fsub_def)

lemma calc_atr_leading:
  "i < length close \<Longrightarrow> length high = length close \<Longrightarrow> length low = length close \<Longrightarrow>
   Suc i < p \<Longrightarrow> calc_atr high low close p ! i = NaN"
  by (simp add: calc_atr_def Let_def rolling_leading)

lemma calc_rsv_leading:
  "i < length close \<Longrightarrow> length high = length close \<Longrightarrow> length low = length close \<Longrightarrow>
   Suc i < n \<Longrightarrow> calc_rsv high low close n ! i = Fin 50"
  by (simp add: calc_rsv_def Let_def fillna_def rolling_leading fsub_def)

lemma ewm_step_same: "ewm_step a (Fin c, 1) (Fin c) = (Fin c, 1)"
  by (simp add: ewm_step_def)

lemma ewm_run_const_prefix:
  "i < length xs \<Longrightarrow> (\<And>j. j \<le> i \<Longrightarrow> xs ! j = Fin c) \<Longrightarrow>
   ewm_run a (Fin c, 1) xs ! i = Fin c"
proof (induction xs arbitrary: i)
  case Nil
  then show ?case by simp
next
  case (Cons x xs)
  have x: "x = Fin c" using Cons.prems(2)[of 0] by simp
  show ?case
  proof (cases i)
    case 0
    then show ?thesis by (simp add: x ewm_step_same)
  next
    case (Suc k)
    have "ewm_run a (Fin c, 1) xs ! k = Fin c"
    proof (rule Cons.IH)
      show "k < length xs" using Cons.prems(1) Suc by simp
      fix j assume "j \<le> k"
      then show "xs ! j = Fin c" using Cons.prems(2)[of "Suc j"] Suc by simp
    qed
    then show ?thesis by (simp add: x ewm_step_same Suc)
  qed
qed

lemma ewm_mean_const_prefix:
  assumes "i < length xs" and "\<And>j. j \<le> i \<Longrightarrow> xs ! j = Fin c"
  shows "ewm_mean a xs ! i = Fin c"
proof (cases xs)
  case Nil
  then show ?thesis using assms(1) by simp
next
  case (Cons x rest)
  have x: "x = Fin c" using assms(2)[of 0] Cons by simp
  have m: "map inf_to_nan xs = Fin c # map inf_to_nan rest"
    by (simp add: Cons x inf_to_nan_def)
  show ?thesis
  proof (cases i)
    case 0
    then show ?thesis by (simp add: ewm_mean_def m)
  next
    case (Suc k)
    have "ewm_run a (Fin c, 1) (map inf_to_nan rest) ! k = Fin c"
    proof (rule ewm_run_const_prefix)
      show "k < length (map inf_to_nan rest)" using assms(1) Suc Cons by simp
      fix j assume j: "j \<le> k"
      then have "rest ! j = Fin c" using assms(2)[of "Suc j"] Suc Cons by simp
      moreover have "j < length rest" using j assms(1) Suc Cons by simp
      ultimately show "map inf_to_nan rest ! j = Fin c" by (simp add: inf_to_nan_def)
    qed
    then show ?thesis by (simp add: ewm_mean_def m Suc)
  qed
qed

lemma funpow_min_const: "(min (c::real) ^^ k) c = c"
  by (induction k) simp_all

lemma funpow_max_const: "(max (c::real) ^^ k) c = c"
  by (induction k) simp_all

lemma agg_min_const: "w \<noteq> [] \<Longrightarrow> agg_min (map (\<lambda>_. c) w) = Fin c"
  by (cases w) (simp_all add: agg_min_def map_replicate_const funpow_min_const)

lemma agg_max_const: "w \<noteq> [] \<Longrightarrow> agg_max (map (\<lambda>_. c) w) = Fin c"
  by (cases w) (simp_all add: agg_max_def map_replicate_const funpow_max_const)

lemma calc_rsv_flat:
  assumes "i < length close" "length high = length close" "length low = length close"
    and flat: "\<And>j. Suc i - n \<le> j \<Longrightarrow> j \<le> i \<Longrightarrow> high ! j = Fin c \<and> low ! j = Fin c"
    and cl: "close ! i = Fin c"
  shows "calc_rsv high low close n ! i = Fin 50"
proof (cases "Suc i < n")
  case True
  then show ?thesis using assms(1-3) by (rule calc_rsv_leading[rotated 3])
next
  case False
  then have n: "n \<le> Suc i" by simp
  have lo: "rolling agg_min n low ! i = agg_min (map (\<lambda>_. c) [Suc i - n..<Suc i])"
    using assms(1,3) n flat by (intro rolling_nth_fin) auto
  have hi: "rolling agg_max n high ! i = agg_max (map (\<lambda>_. c) [Suc i - n..<Suc i])"
    using assms(1,2) n flat by (intro rolling_nth_fin) auto
  show ?thesis
  proof (cases "n = 0")
    case True
    then show ?thesis
      using assms(1-3)
      by (simp add: calc_rsv_def Let_def fillna_def rolling_zero agg_min_def agg_max_def fsub_def)
  next
    case False
    then have ne: "[Suc i - n..<Suc i] \<noteq> []" using n by simp
    have "rolling agg_min n low ! i = Fin c" "rolling agg_max n high ! i = Fin c"
      using agg_min_const[OF ne, of c] agg_max_const[OF ne, of c] lo hi by simp_all
    then show ?thesis
      using assms(1-3) cl by (simp add: calc_rsv_def Let_def fillna_def fsub_def)
  qed
qed

lemma diff_nth:
  "i < length xs \<Longrightarrow> diff xs ! i = (if i = 0 then NaN else fsub (xs ! i) (xs ! (i - 1)))"
  by (cases xs; cases i) (simp_all add: diff_def)

lemma gains_nth:
  assumes "j < length cs"
  shows "map (\<lambda>x. if fgt x (Fin 0) then x else Fin 0) (diff (map Fin cs)) ! j
         = Fin (if j = 0 then 0 else max (cs ! j - cs ! (j - 1)) 0)"
  using assms by (simp add: diff_nth fsub_def fgt_def max_def)

lemma losses_nth:
  assumes "j < length cs"
  shows "map fneg (map (\<lambda>x. if flt x (Fin 0) then x else Fin 0) (diff (map Fin cs))) ! j
         = Fin (if j = 0 then 0 else max (cs ! (j - 1) - cs ! j) 0)"
  using assms by (simp add: diff_nth fsub_def max_def)

lemma rsi_fin_nth:
  assumes "i < length cs" "p \<le> Suc i"
  shows "rsi_series (map Fin cs) p ! i =
           fsub (Fin 100) (fdiv (Fin 100) (fadd (Fin 1)
             (fdiv (agg_mean (map (\<lambda>j. if j = 0 then 0 else max (cs ! j - cs ! (j - 1)) 0)
                                [Suc i - p..<Suc i]))
                   (agg_mean (map (\<lambda>j. if j = 0 then 0 else max (cs ! (j - 1) - cs ! j) 0)
                                [Suc i - p..<Suc i])))))"
proof -
  have g: "rolling agg_mean p (map (\<lambda>x. if fgt x (Fin 0) then x else Fin 0) (diff (map Fin cs))) ! i
           = agg_mean (map (\<lambda>j. if j = 0 then 0 else max (cs ! j - cs ! (j - 1)) 0)
                                [Suc i - p..<Suc i])"
  proof (rule rolling_nth_fin)
    show "i < length (map (\<lambda>x. if fgt x (Fin 0) then x else Fin 0) (diff (map Fin cs)))"
      using assms(1) by simp
    show "p \<le> Suc i" by (rule assms(2))
    fix j assume "Suc i - p \<le> j" "j \<le> i"
    then have "j < length cs" using assms(1) by simp
    then show "map (\<lambda>x. if fgt x (Fin 0) then x else Fin 0) (diff (map Fin cs)) ! j
         = Fin (if j = 0 then 0 else max (cs ! j - cs ! (j - 1)) 0)"
      by (rule gains_nth)
  qed
  have l: "rolling agg_mean p
             (map fneg (map (\<lambda>x. if flt x (Fin 0) then x else Fin 0) (diff (map Fin cs)))) ! i
           = agg_mean (map (\<lambda>j. if j = 0 then 0 else max (cs ! (j - 1) - cs ! j) 0)
                                [Suc i - p..<Suc i])"
  proof (rule rolling_nth_fin)
    show "i < length (map fneg (map (\<lambda>x. if flt x (Fin 0) then x else Fin 0) (diff (map Fin cs))))"
      using assms(1) by simp
    show "p \<le> Suc i" by (rule assms(2))
    fix j assume "Suc i - p \<le> j" "j \<le> i"
    then have "j < length cs" using assms(1) by simp
    then show "map fneg (map (\<lambda>x. if flt x (Fin 0) then x else Fin 0) (diff (map Fin cs))) ! j
         = Fin (if j = 0 then 0 else max (cs ! (j - 1) - cs ! j) 0)"
      by (rule losses_nth)
  qed
  show ?thesis
    unfolding rsi_series_def Let_def using assms(1) by (simp add: g l del: map_map)
qed

lemma sum_list_pos:
  "w \<noteq> [] \<Longrightarrow> (\<And>x. x \<in> set w \<Longrightarrow> 0 < f x) \<Longrightarrow> 0 < (\<Sum>x\<leftarrow>w. (f x :: real))"
proof (induction w)
  case Nil
  then show ?case by simp
next
  case (Cons a w)
  show ?case
  proof (cases "w = []")
    case True
    then show ?thesis using Cons.prems(2)[of a] by simp
  next
    case False
    then have "0 < (\<Sum>x\<leftarrow>w. f x)" using Cons by simp
    then show ?thesis using Cons.prems(2)[of a] by simp
  qed
qed

lemma agg_mean_zero: "w \<noteq> [] \<Longrightarrow> (\<And>x. x \<in> set w \<Longrightarrow> f x = 0) \<Longrightarrow> agg_mean (map f w) = Fin 0"
proof -
  assume w: "w \<noteq> []" and z: "\<And>x. x \<in> set w \<Longrightarrow> f x = 0"
  have "map f w = map (\<lambda>_. 0) w" using z by simp
  then show ?thesis using w by (simp add: agg_mean_def del: map_eq_conv)
qed

lemma agg_mean_pos:
  assumes "w \<noteq> []" "\<And>x. x \<in> set w \<Longrightarrow> 0 < f x"
  shows "\<exists>g. agg_mean (map f w) = Fin g \<and> 0 < g"
proof -
  have "0 < (\<Sum>x\<leftarrow>w. f x)" using assms by (rule sum_list_pos)
  then show ?thesis using assms(1) by (simp add: agg_mean_def)
qed

lemma rsi_of_up: "0 < g \<Longrightarrow> fsub (Fin 100) (fdiv (Fin 100) (fadd (Fin 1) (fdiv (Fin g) (Fin 0)))) = Fin 100"
  by (simp add: fsub_def)

lemma rsi_of_down: "0 < l \<Longrightarrow> fsub (Fin 100) (fdiv (Fin 100) (fadd (Fin 1) (fdiv (Fin 0) (Fin l)))) = Fin 0"
  by (simp add: fsub_def)

lemma rsi_of_flat: "fsub (Fin 100) (fdiv (Fin 100) (fadd (Fin 1) (fdiv (Fin 0) (Fin 0)))) = NaN"
  by (simp add: fsub_def)

lemma window_steps:
  assumes "1 \<le> p" "Suc p \<le> length cs" "sorted_wrt R (drop (length cs - Suc p) cs)"
    and "j \<in> set [Suc (length cs - 1) - p..<Suc (length cs - 1)]"
  shows "j \<noteq> 0 \<and> R (cs ! (j - 1)) (cs ! j)"
proof -
  let ?k = "length cs - Suc p"
  have j: "length cs - p \<le> j" "j < length cs" using assms(2,4) by auto
  then have j0: "j \<noteq> 0" using assms(1,2) by arith
  have a: "j - 1 - ?k < j - ?k" "j - ?k < length (drop ?k cs)" using j assms(1,2) by auto
  have "R (drop ?k cs ! (j - 1 - ?k)) (drop ?k cs ! (j - ?k))"
    using sorted_wrt_nth_less[OF assms(3) a] .
  moreover have "?k + (j - 1 - ?k) = j - 1" "?k + (j - ?k) = j" using j assms(1,2) by arith+
  ultimately show ?thesis using j0 j by (simp add: nth_drop)
qed

lemma rsi_increasing:
  assumes "1 \<le> p" "Suc p \<le> length cs" "sorted_wrt (<) (drop (length cs - Suc p) cs)"
  shows "last (rsi_series (map Fin cs) p) = Fin 100"
proof -
  let ?i = "length cs - 1"
  let ?w = "[Suc ?i - p..<Suc ?i]"
  have i: "?i < length cs" "p \<le> Suc ?i" using assms(1,2) by auto
  have w: "?w \<noteq> []" using assms(1,2) by auto
  have st: "\<And>j. j \<in> set ?w \<Longrightarrow> j \<noteq> 0 \<and> cs ! (j - 1) < cs ! j"
    using window_steps[OF assms(1,2,3)] by blast
  have pos: "\<And>j. j \<in> set ?w \<Longrightarrow> 0 < (if j = 0 then 0 else max (cs ! j - cs ! (j - 1)) 0)"
  proof -
    fix j assume "j \<in> set ?w"
    then have "j \<noteq> 0 \<and> cs ! (j - 1) < cs ! j" by (rule st)
    then show "0 < (if j = 0 then 0 else max (cs ! j - cs ! (j - 1)) 0)" by (simp add: max_def)
  qed
  have "\<exists>g. agg_mean (map (\<lambda>j. if j = 0 then 0 else max (cs ! j - cs ! (j - 1)) 0) ?w) = Fin g
            \<and> 0 < g"
    using w pos by (rule agg_mean_pos)
  then obtain g where
    g: "agg_mean (map (\<lambda>j. if j = 0 then 0 else max (cs ! j - cs ! (j - 1)) 0) ?w) = Fin g"
      "0 < g"
    by blast
  have zero: "\<And>j. j \<in> set ?w \<Longrightarrow> (if j = 0 then 0 else max (cs ! (j - 1) - cs ! j) 0) = 0"
  proof -
    fix j assume "j \<in> set ?w"
    then have "j \<noteq> 0 \<and> cs ! (j - 1) < cs ! j" by (rule st)
    then show "(if j = 0 then 0 else max (cs ! (j - 1) - cs ! j) 0) = 0" by (simp add: max_def)
  qed
  have l: "agg_mean (map (\<lambda>j. if j = 0 then 0 else max (cs ! (j - 1) - cs ! j) 0) ?w) = Fin 0"
    using w zero by (rule agg_mean_zero)
  have "rsi_series (map Fin cs) p ! ?i = Fin 100"
    by (simp only: rsi_fin_nth[OF i] g(1) l rsi_of_up[OF g(2)])
  moreover have "rsi_series (map Fin cs) p \<noteq> []" using i(1) by (simp flip: length_greater_0_conv)
  ultimately show ?thesis by (simp add: last_conv_nth)
qed

lemma rsi_decreasing:
  assumes "1 \<le> p" "Suc p \<le> length cs" "sorted_wrt (>) (drop (length cs - Suc p) cs)"
  shows "last (rsi_series (map Fin cs) p) = Fin 0"
proof -
  let ?i = "length cs - 1"
  let ?w = "[Suc ?i - p..<Suc ?i]"
  have i: "?i < length cs" "p \<le> Suc ?i" using assms(1,2) by auto
  have w: "?w \<noteq> []" using assms(1,2) by auto
  have st: "\<And>j. j \<in> set ?w \<Longrightarrow> j \<noteq> 0 \<and> cs ! (j - 1) > cs ! j"
    using window_steps[OF assms(1,2,3)] by blast
  have pos: "\<And>j. j \<in> set ?w \<Longrightarrow> 0 < (if j = 0 then 0 else max (cs ! (j - 1) - cs ! j) 0)"
  proof -
    fix j assume "j \<in> set ?w"
    then have "j \<noteq> 0 \<and> cs ! (j - 1) > cs ! j" by (rule st)
    then show "0 < (if j = 0 then 0 else max (cs ! (j - 1) - cs ! j) 0)" by (simp add: max_def)
  qed
  have "\<exists>l. agg_mean (map (\<lambda>j. if j = 0 then 0 else max (cs ! (j - 1) - cs ! j) 0) ?w) = Fin l
            \<and> 0 < l"
    using w pos by (rule agg_mean_pos)
  then obtain l where
    l: "agg_mean (map (\<lambda>j. if j = 0 then 0 else max (cs ! (j - 1) - cs ! j) 0) ?w) = Fin l"
      "0 < l"
    by blast
  have zero: "\<And>j. j \<in> set ?w \<Longrightarrow> (if j = 0 then 0 else max (cs ! j - cs ! (j - 1)) 0) = 0"
  proof -
    fix j assume "j \<in> set ?w"
    then have "j \<noteq> 0 \<and> cs ! (j - 1) > cs ! j" by (rule st)
    then show "(if j = 0 then 0 else max (cs ! j - cs ! (j - 1)) 0) = 0" by (simp add: max_def)
  qed
  have g: "agg_mean (map (\<lambda>j. if j = 0 then 0 else max (cs ! j - cs ! (j - 1)) 0) ?w) = Fin 0"
    using w zero by (rule agg_mean_zero)
  have "rsi_series (map Fin cs) p ! ?i = Fin 0"
    by (simp only: rsi_fin_nth[OF i] g l(1) rsi_of_down[OF l(2)])
  moreover have "rsi_series (map Fin cs) p \<noteq> []" using i(1) by (simp flip: length_greater_0_conv)
  ultimately show ?thesis by (simp add: last_conv_nth)
qed

lemma rsi_flat:
  assumes "1 \<le> p" "p \<le> n"
  shows "last (rsi_series (replicate n (Fin c)) p) = NaN"
proof -
  let ?cs = "replicate n c"
  let ?i = "n - 1"
  let ?w = "[Suc ?i - p..<Suc ?i]"
  have i: "?i < length ?cs" "p \<le> Suc ?i" using assms by auto
  have w: "?w \<noteq> []" using assms by auto
  have g: "agg_mean (map (\<lambda>j. if j = 0 then 0 else max (?cs ! j - ?cs ! (j - 1)) 0) ?w) = Fin 0"
    using assms by (intro agg_mean_zero[OF w]) auto
  have l: "agg_mean (map (\<lambda>j. if j = 0 then 0 else max (?cs ! (j - 1) - ?cs ! j) 0) ?w) = Fin 0"
    using assms by (intro agg_mean_zero[OF w]) auto
  have "rsi_series (map Fin ?cs) p ! ?i = NaN"
    using rsi_fin_nth[OF i] by (simp only: length_replicate g l rsi_of_flat)
  moreover have "map Fin ?cs = replicate n (Fin c)" by simp
  moreover have "rsi_series (replicate n (Fin c)) p \<noteq> []"
    using assms by (simp flip: length_greater_0_conv)
  ultimately show ?thesis by (simp add: last_conv_nth del: map_replicate)
qed

lemma fround_NaN [simp]: "fround NaN n = NaN"
  by (simp add: fround_def)

text \<open>
  Rounding keeps a value that is not NaN away from NaN, and so do the steps that lead from
  the quotient of two closes to the change in percent, whether the quotient is finite or an
  infinity.
\<close>

lemma fround_defined: "v \<noteq> NaN \<Longrightarrow> fround v n \<noteq> NaN"
  by (cases v) (simp_all add: fround_def)

lemma fdiv_defined: "b \<noteq> 0 \<Longrightarrow> fdiv (Fin a) (Fin b) \<noteq> NaN"
  by simp

lemma change_defined:
  "q \<noteq> NaN \<Longrightarrow> fround (fmul (fsub q (Fin 1)) (Fin 100)) 2 \<noteq> NaN"
  by (cases q) (simp_all add: fsub_def fround_def)

lemma get_rsi_signal_nan:
  "rsi \<noteq> [] \<Longrightarrow> last rsi = NaN \<Longrightarrow>
   get_rsi_signal rsi = Inr (rsi_neutral_prefix @ [0x6E, 0x61, 0x6E, 0x29])"
  by (simp add: get_rsi_signal_def iloc_last fgt_def fmt1_def)

lemma last_by_length:
  "xs \<noteq> [] \<Longrightarrow> length ys = length xs \<Longrightarrow> last ys = ys ! (length xs - 1)"
  by (metis last_conv_nth length_0_conv)

section \<open>Properties of the composite scorer\<close>

lemma adjusted_low:
  "adjusted_score macd_death kdj_overbought_death rsi_severe_overbought boll_above_upper trend_down = -15"
  by (simp add: adjusted_score_def kw_defs macd_death_def kdj_overbought_death_def
      rsi_severe_overbought_def boll_above_upper_def trend_down_def trend_up_def)

lemma adjusted_high:
  "adjusted_score macd_golden kdj_oversold_golden rsi_severe_oversold boll_below_lower trend_up = 115"
  by (simp add: adjusted_score_def kw_defs macd_golden_def kdj_oversold_golden_def
      rsi_severe_oversold_def boll_below_lower_def trend_down_def trend_up_def)

text \<open>
  C3. Whatever the five strings are, the score returned by \<open>technical_score\<close> lies between
  0 and 100. The unclamped sum does leave this range: the five most bearish labels add up to
  -15 and the five most bullish ones to 115, and the returned scores are 0 and 100.
\<close>

theorem technical_score_clamped:
  "0 \<le> score (technical_score m k r b t) \<and> score (technical_score m k r b t) \<le> 100
   \<and> adjusted_score macd_death kdj_overbought_death rsi_severe_overbought boll_above_upper trend_down = -15
   \<and> score (technical_score macd_death kdj_overbought_death rsi_severe_overbought boll_above_upper trend_down) = 0
   \<and> adjusted_score macd_golden kdj_oversold_golden rsi_severe_oversold boll_below_lower trend_up = 115
   \<and> score (technical_score macd_golden kdj_oversold_golden rsi_severe_oversold boll_below_lower trend_up) = 100"
  by (simp add: technical_score_def Let_def adjusted_low adjusted_high)

lemma tier_of_clamped: "rating_tier (min (max s 0) 100) = rating_tier s"
  by (simp add: rating_tier_def min_def max_def)

lemma technical_score_tier:
  "(rating (technical_score m k r b t), stars (technical_score m k r b t))
     = rating_tier (score (technical_score m k r b t))"
  by (simp add: technical_score_def Let_def tier_of_clamped)

text \<open>
  C4. The rating and the stars returned by \<open>technical_score\<close> are those of the tier of the
  returned score, each tier including its lower bound: from 80 strong buy with 5 stars, from
  65 buy with 4, from 50 neutral with 3, from 35 sell with 2, below 35 strong sell with 1.
  The tier of 80 is strong buy with 5 stars and the tier of 79 is buy with 4 stars.
\<close>

theorem rating_tiers:
  fixes m k r b t
  defines "res \<equiv> technical_score m k r b t"
  shows "(score res \<ge> 80 \<longrightarrow> rating res = rating_strong_buy \<and> stars res = 5)
       \<and> (65 \<le> score res \<and> score res < 80 \<longrightarrow> rating res = rating_buy \<and> stars res = 4)
       \<and> (50 \<le> score res \<and> score res < 65 \<longrightarrow> rating res = rating_neutral \<and> stars res = 3)
       \<and> (35 \<le> score res \<and> score res < 50 \<longrightarrow> rating res = rating_sell \<and> stars res = 2)
       \<and> (score res < 35 \<longrightarrow> rating res = rating_strong_sell \<and> stars res = 1)
       \<and> rating_tier 80 = (rating_strong_buy, 5) \<and> rating_tier 79 = (rating_buy, 4)"
proof -
  have "(rating res, stars res) = rating_tier (score res)"
    unfolding res_def by (rule technical_score_tier)
  then show ?thesis
    by (auto simp add: rating_tier_def split: if_splits)
qed

theorem rating_tiers_witness:
  "score (technical_score macd_golden kdj_oversold_golden [] [] []) = 80
   \<and> rating (technical_score macd_golden kdj_oversold_golden [] [] []) = rating_strong_buy
   \<and> stars (technical_score macd_golden kdj_oversold_golden [] [] []) = 5
   \<and> score (technical_score macd_golden [] [] [] []) = 65
   \<and> rating (technical_score macd_golden [] [] [] []) = rating_buy
   \<and> stars (technical_score macd_golden [] [] [] []) = 4
   \<and> score (technical_score [] [] [] [] []) = 50
   \<and> rating (technical_score [] [] [] [] []) = rating_neutral
   \<and> stars (technical_score [] [] [] [] []) = 3
   \<and> score (technical_score macd_death [] [] [] []) = 35
   \<and> rating (technical_score macd_death [] [] [] []) = rating_sell
   \<and> stars (technical_score macd_death [] [] [] []) = 2
   \<and> score (technical_score macd_death kdj_death [] [] []) = 25
   \<and> rating (technical_score macd_death kdj_death [] [] []) = rating_strong_sell
   \<and> stars (technical_score macd_death kdj_death [] [] []) = 1"
proof -
  have s: "score (technical_score macd_golden kdj_oversold_golden [] [] []) = 80"
    "score (technical_score macd_golden [] [] [] []) = 65"
    "score (technical_score [] [] [] [] []) = 50"
    "score (technical_score macd_death [] [] [] []) = 35"
    "score (technical_score macd_death kdj_death [] [] []) = 25"
    by (simp_all add: technical_score_def adjusted_score_def Let_def kw_defs macd_golden_def
        kdj_oversold_golden_def macd_death_def kdj_death_def trend_up_def trend_down_def)
  show ?thesis
    using rating_tiers [of macd_golden kdj_oversold_golden "[]" "[]" "[]"]
      rating_tiers [of macd_golden "[]" "[]" "[]" "[]"]
      rating_tiers [of "[]" "[]" "[]" "[]" "[]"]
      rating_tiers [of macd_death "[]" "[]" "[]" "[]"]
      rating_tiers [of macd_death kdj_death "[]" "[]" "[]"]
    by (simp add: s)
qed

lemma technical_score_kdj_zero:
  "technical_score m kdj_high_golden r b t = technical_score m kdj_neutral r b t"
  "technical_score m kdj_low_death r b t = technical_score m kdj_neutral r b t"
  by (simp_all add: technical_score_def adjusted_score_def kw_defs kdj_high_golden_def kdj_neutral_def
      kdj_low_death_def split del: if_split)

text \<open>
  C10. The KDJ labels "high-level golden cross" and "low-level death cross" add nothing to
  the score: with either of them \<open>technical_score\<close> returns what it returns with the neutral
  KDJ label, whatever the other four inputs are. \<open>get_kdj_signal\<close> gives the first label to
  a fresh golden cross with K at or above 50 and the second to a fresh death cross with K at
  or below 50.
\<close>

theorem kdj_high_low_cross_adds_nothing:
  "technical_score m kdj_high_golden r b t = technical_score m kdj_neutral r b t
   \<and> technical_score m kdj_low_death r b t = technical_score m kdj_neutral r b t
   \<and> (2 \<le> length k \<and> 2 \<le> length d \<and> fgt (last k) (last d)
        \<and> fle (k ! (length k - 2)) (d ! (length d - 2)) \<and> fge (last k) (Fin 50)
      \<longrightarrow> get_kdj_signal k d = Inr kdj_high_golden)
   \<and> (2 \<le> length k \<and> 2 \<le> length d \<and> flt (last k) (last d)
        \<and> fge (k ! (length k - 2)) (d ! (length d - 2)) \<and> fle (last k) (Fin 50)
      \<longrightarrow> get_kdj_signal k d = Inr kdj_low_death)"
proof (intro conjI impI)
  show "technical_score m kdj_high_golden r b t = technical_score m kdj_neutral r b t"
    by (rule technical_score_kdj_zero)
  show "technical_score m kdj_low_death r b t = technical_score m kdj_neutral r b t"
    by (rule technical_score_kdj_zero)
next
  assume h: "2 \<le> length k \<and> 2 \<le> length d \<and> fgt (last k) (last d)
        \<and> fle (k ! (length k - 2)) (d ! (length d - 2)) \<and> fge (last k) (Fin 50)"
  then have ne: "k \<noteq> []" "d \<noteq> []" by auto
  have rd: "iloc k (-1) = Inr (last k)" "iloc d (-1) = Inr (last d)"
    "iloc k (-2) = Inr (k ! (length k - 2))" "iloc d (-2) = Inr (d ! (length d - 2))"
    using h ne by (simp_all add: iloc_last iloc_prev)
  have "\<not> flt (last k) (Fin 20)" "\<not> flt (last k) (Fin 50)"
    using h fge_trans_lt[of "last k" 50] by auto
  then show "get_kdj_signal k d = Inr kdj_high_golden"
    unfolding get_kdj_signal_def using h by (simp add: rd)
next
  assume h: "2 \<le> length k \<and> 2 \<le> length d \<and> flt (last k) (last d)
        \<and> fge (k ! (length k - 2)) (d ! (length d - 2)) \<and> fle (last k) (Fin 50)"
  then have ne: "k \<noteq> []" "d \<noteq> []" by auto
  have rd: "iloc k (-1) = Inr (last k)" "iloc d (-1) = Inr (last d)"
    "iloc k (-2) = Inr (k ! (length k - 2))" "iloc d (-2) = Inr (d ! (length d - 2))"
    using h ne by (simp_all add: iloc_last iloc_prev)
  have ng: "\<not> fgt (last k) (last d)"
    using h flt_asym[of "last k" "last d"] by (simp add: fgt_def)
  have "\<not> fgt (last k) (Fin 80)" "\<not> fgt (last k) (Fin 50)"
    using h fle_trans_gt[of "last k" 50] by auto
  then show "get_kdj_signal k d = Inr kdj_low_death"
    unfolding get_kdj_signal_def using h ng by (simp add: rd)
qed

theorem kdj_high_low_cross_adds_nothing_witness:
  "2 \<le> length [Fin 40, Fin 60] \<and> 2 \<le> length [Fin 50, Fin 55]
   \<and> fgt (last [Fin 40, Fin 60]) (last [Fin 50, Fin 55]) \<and> fle (Fin 40) (Fin 50)
   \<and> fge (last [Fin 40, Fin 60]) (Fin 50)
   \<and> get_kdj_signal [Fin 40, Fin 60] [Fin 50, Fin 55] = Inr kdj_high_golden
   \<and> flt (last [Fin 60, Fin 40]) (last [Fin 50, Fin 45]) \<and> fge (Fin 60) (Fin 50)
   \<and> fle (last [Fin 60, Fin 40]) (Fin 50)
   \<and> get_kdj_signal [Fin 60, Fin 40] [Fin 50, Fin 45] = Inr kdj_low_death"
  using kdj_high_low_cross_adds_nothing [of _ _ _ _ "[Fin 40, Fin 60]" "[Fin 50, Fin 55]"]
    kdj_high_low_cross_adds_nothing [of _ _ _ _ "[Fin 60, Fin 40]" "[Fin 50, Fin 45]"]
  by (simp add: fgt_def fge_def)

section \<open>Properties of the signal classifiers\<close>

text \<open>
  C5. For two series of at least 2 points, \<open>get_macd_signal\<close> returns "golden cross / buy"
  exactly when DIF is at most DEA at the position before the last and above DEA at the last
  one, and "death cross / sell" exactly when DIF is at least DEA before and below DEA at
  the last position. When \<open>dif\<close> has fewer than 2 points it returns "insufficient data".
\<close>

theorem macd_signal_cross:
  "(length dif < 2 \<longrightarrow> get_macd_signal dif dea = Inr sig_insufficient)
   \<and> (2 \<le> length dif \<and> 2 \<le> length dea \<longrightarrow>
        (get_macd_signal dif dea = Inr macd_golden \<longleftrightarrow>
           fle (dif ! (length dif - 2)) (dea ! (length dea - 2)) \<and> fgt (last dif) (last dea))
      \<and> (get_macd_signal dif dea = Inr macd_death \<longleftrightarrow>
           fge (dif ! (length dif - 2)) (dea ! (length dea - 2)) \<and> flt (last dif) (last dea)))"
proof (intro conjI impI)
  assume "length dif < 2"
  then show "get_macd_signal dif dea = Inr sig_insufficient"
    by (simp add: get_macd_signal_def)
next
  assume len: "2 \<le> length dif \<and> 2 \<le> length dea"
  then have ne: "dif \<noteq> []" "dea \<noteq> []" by auto
  have rd: "iloc dif (-1) = Inr (last dif)" "iloc dea (-1) = Inr (last dea)"
    "iloc dif (-2) = Inr (dif ! (length dif - 2))" "iloc dea (-2) = Inr (dea ! (length dea - 2))"
    using len ne by (simp_all add: iloc_last iloc_prev)
  have nl: "\<not> length dif < 2" using len by simp
  show "get_macd_signal dif dea = Inr macd_golden \<longleftrightarrow>
           fle (dif ! (length dif - 2)) (dea ! (length dea - 2)) \<and> fgt (last dif) (last dea)"
    unfolding get_macd_signal_def using nl
    by (simp add: rd sig_defs)
  show "get_macd_signal dif dea = Inr macd_death \<longleftrightarrow>
           fge (dif ! (length dif - 2)) (dea ! (length dea - 2)) \<and> flt (last dif) (last dea)"
    unfolding get_macd_signal_def using nl flt_asym[of "last dif" "last dea"]
    by (auto simp add: rd sig_defs fgt_def)
qed

theorem macd_signal_cross_witness:
  "2 \<le> length [Fin 1, Fin 3] \<and> 2 \<le> length [Fin 2, Fin 2 :: fval]
   \<and> get_macd_signal [Fin 1, Fin 3] [Fin 2, Fin 2] = Inr macd_golden
   \<and> get_macd_signal [Fin 3, Fin 1] [Fin 2, Fin 2] = Inr macd_death
   \<and> length [Fin 1] < (2::nat) \<and> get_macd_signal [Fin 1] [Fin 1] = Inr sig_insufficient"
  using macd_signal_cross [of "[Fin 1, Fin 3]" "[Fin 2, Fin 2]"]
    macd_signal_cross [of "[Fin 3, Fin 1]" "[Fin 2, Fin 2]"]
    macd_signal_cross [of "[Fin 1]" "[Fin 1]"]
  by (simp add: fgt_def fge_def)

section \<open>Properties of the indicator library\<close>

text \<open>
  C8 (as amended). Take any position \<open>i\<close> of the series. If every bar of the \<open>n\<close>-bar window
  that ends at \<open>i\<close> (or every bar up to \<open>i\<close>, when fewer than \<open>n\<close> exist) has its high and
  its low at one value \<open>c\<close>, and the close at \<open>i\<close> is \<open>c\<close> too, then the RSV that \<open>calc_kdj\<close>
  computes at \<open>i\<close> is 50: the quotient is 0/0, which is NaN and raises nothing, and
  \<open>fillna(50)\<close> replaces it. \<open>calc_kdj\<close> returns its result, with K the smoothing of that
  series. On a series that is flat throughout, every position qualifies.
\<close>

theorem flat_window_rsv:
  assumes "i < length close" "length high = length close" "length low = length close"
    and "\<forall>j. Suc i - n \<le> j \<and> j \<le> i \<longrightarrow> high ! j = Fin c \<and> low ! j = Fin c"
    and "close ! i = Fin c"
  shows "calc_rsv high low close n ! i = Fin 50
       \<and> (\<exists>r. calc_kdj high low close n 3 3 = Inr r
              \<and> K r = ewm_mean (1 / 3) (calc_rsv high low close n))"
proof -
  have "calc_rsv high low close n ! i = Fin 50"
    using assms by (intro calc_rsv_flat[where c = c]) auto
  moreover have "\<exists>r. calc_kdj high low close n 3 3 = Inr r
              \<and> K r = ewm_mean (1 / 3) (calc_rsv high low close n)"
    using calc_kdj_total[of 3 3 high close low n] assms(2,3) by auto
  ultimately show ?thesis by simp
qed

theorem flat_window_rsv_witness:
  "(8::nat) < length (replicate 9 (Fin 10))
   \<and> replicate 9 (Fin 10) ! 8 = Fin 10
   \<and> calc_rsv (replicate 9 (Fin 10)) (replicate 9 (Fin 10)) (replicate 9 (Fin 10)) 9 ! 8 = Fin 50"
proof -
  have h: "\<forall>j. Suc 8 - 9 \<le> j \<and> j \<le> 8 \<longrightarrow>
          replicate 9 (Fin 10) ! j = Fin 10 \<and> replicate 9 (Fin 10) ! j = Fin 10"
    by simp
  show ?thesis
    using h flat_window_rsv [of 8 "replicate 9 (Fin 10)" "replicate 9 (Fin 10)"
        "replicate 9 (Fin 10)" 9 10]
    by simp
qed

text \<open>
  The claim as stated fails: in the series below every bar has high = low = close, and the
  nine bars at positions 1 to 9 are flat at 11, a full window; yet the RSV at position 8,
  inside that window, is 100, because the rolling window that ends at position 8 still
  holds the bar at position 0, whose price is 8.
\<close>

theorem flat_window_rsv_counterexample:
  "drop 1 gap_then_flat = replicate 9 (Fin 11)
   \<and> calc_rsv gap_then_flat gap_then_flat gap_then_flat 9 =
       map Fin [50, 50, 50, 50, 50, 50, 50, 50, 100, 50]"
  by (simp add: gap_then_flat_def calc_rsv_def rolling_def Let_def fillna_def fsub_def
      agg_min_def agg_max_def upt_rec numeral_eq_Suc)

text \<open>
  C7 (as amended). Before the window has filled, that is at a position \<open>i\<close> with
  \<open>i + 1 < p\<close>, the moving averages of \<open>calc_ma\<close> and \<open>calc_vol_ma\<close>, the RSI, the three
  Bollinger bands and the ATR are NaN. \<open>calc_kdj\<close> is different by construction: the RSV of
  such a position is filled with 50 by \<open>fillna(50)\<close>, whatever the bars are, and K, D and J
  are 50 there.
\<close>

theorem leading_positions:
  assumes "i < length close" "length high = length close" "length low = length close"
    "length volume = length close" "Suc i < p"
  shows "(p \<in> set periods \<longrightarrow>
            (\<exists>col. map_of (calc_ma close periods) p = Some col \<and> col ! i = NaN)
          \<and> (\<exists>col. map_of (calc_vol_ma volume periods) p = Some col \<and> col ! i = NaN))
       \<and> rsi_series close p ! i = NaN
       \<and> (\<exists>r. calc_boll close p k = Inr r
              \<and> UPPER r ! i = NaN \<and> MID r ! i = NaN \<and> LOWER r ! i = NaN)
       \<and> calc_atr high low close p ! i = NaN
       \<and> calc_rsv high low close p ! i = Fin 50
       \<and> (1 \<le> m1 \<and> 1 \<le> m2 \<longrightarrow>
            (\<exists>r. calc_kdj high low close p m1 m2 = Inr r
                \<and> K r ! i = Fin 50 \<and> D r ! i = Fin 50 \<and> J r ! i = Fin 50))"
proof (intro conjI impI)
  assume "p \<in> set periods"
  then show "\<exists>col. map_of (calc_ma close periods) p = Some col \<and> col ! i = NaN"
    using assms(1,5) by (simp add: calc_ma_def map_of_keyed rolling_leading)
next
  assume "p \<in> set periods"
  then show "\<exists>col. map_of (calc_vol_ma volume periods) p = Some col \<and> col ! i = NaN"
    using assms(1,4,5) by (simp add: calc_vol_ma_def map_of_keyed rolling_leading)
next
  show "rsi_series close p ! i = NaN"
    using assms(1,5) by (rule rsi_series_leading)
next
  obtain r where r: "calc_boll close p k = Inr r" "MID r = rolling agg_mean p close"
    "UPPER r = map2 fadd (rolling agg_mean p close)
                     (map (fmul (Fin (real_of_int k))) (rolling agg_std p close))"
    "LOWER r = map2 fsub (rolling agg_mean p close)
                     (map (fmul (Fin (real_of_int k))) (rolling agg_std p close))"
    using calc_boll_total[of close p k] by auto
  have "UPPER r ! i = NaN" "MID r ! i = NaN" "LOWER r ! i = NaN"
    using assms(1,5) by (simp_all add: r(2,3,4) rolling_leading fsub_def)
  then show "\<exists>r. calc_boll close p k = Inr r
              \<and> UPPER r ! i = NaN \<and> MID r ! i = NaN \<and> LOWER r ! i = NaN"
    using r(1) by blast
next
  show "calc_atr high low close p ! i = NaN"
    using assms(1,2,3,5) by (rule calc_atr_leading)
next
  show "calc_rsv high low close p ! i = Fin 50"
    using assms(1,2,3,5) by (rule calc_rsv_leading)
next
  assume m: "1 \<le> m1 \<and> 1 \<le> m2"
  obtain r where r: "calc_kdj high low close p m1 m2 = Inr r"
    "K r = ewm_mean (1 / (1 + real_of_int (m1 - 1))) (calc_rsv high low close p)"
    "D r = ewm_mean (1 / (1 + real_of_int (m2 - 1))) (K r)"
    "J r = map2 fsub (map (fmul (Fin 3)) (K r)) (map (fmul (Fin 2)) (D r))"
    using calc_kdj_total[of m1 m2 high close low p] m assms(2,3) by auto
  have rsv: "\<And>j. j \<le> i \<Longrightarrow> calc_rsv high low close p ! j = Fin 50"
    using assms(1,2,3,5) by (intro calc_rsv_leading) auto
  have li: "i < length (calc_rsv high low close p)" using assms(1,2,3) by simp
  have k: "\<And>j. j \<le> i \<Longrightarrow> K r ! j = Fin 50"
    unfolding r(2) using li rsv by (intro ewm_mean_const_prefix) auto
  have lk: "i < length (K r)" using li by (simp add: r(2))
  have d: "D r ! i = Fin 50"
    unfolding r(3) using lk k by (intro ewm_mean_const_prefix) auto
  have ld: "i < length (D r)" using lk by (simp add: r(3))
  have j: "J r ! i = Fin 50"
    using lk ld k[of i] d by (simp add: r(4) fsub_def)
  show "\<exists>r. calc_kdj high low close p m1 m2 = Inr r
                \<and> K r ! i = Fin 50 \<and> D r ! i = Fin 50 \<and> J r ! i = Fin 50"
    using r(1) k[of i] d j by blast
qed

theorem leading_positions_witness:
  "(0::nat) < length [Fin 10, Fin 11] \<and> Suc 0 < (9::nat) \<and> (9::nat) \<in> set [9]
   \<and> (1::int) \<le> 3
   \<and> rsi_series [Fin 10, Fin 11] 9 ! 0 = NaN
   \<and> calc_atr [Fin 11, Fin 12] [Fin 9, Fin 10] [Fin 10, Fin 11] 9 ! 0 = NaN
   \<and> calc_rsv [Fin 11, Fin 12] [Fin 9, Fin 10] [Fin 10, Fin 11] 9 ! 0 = Fin 50
   \<and> (\<exists>col. map_of (calc_ma [Fin 10, Fin 11] [9]) 9 = Some col \<and> col ! 0 = NaN)
   \<and> (\<exists>r. calc_kdj [Fin 11, Fin 12] [Fin 9, Fin 10] [Fin 10, Fin 11] 9 3 3 = Inr r
                \<and> K r ! 0 = Fin 50 \<and> D r ! 0 = Fin 50 \<and> J r ! 0 = Fin 50)"
  using leading_positions [of 0 "[Fin 10, Fin 11]" "[Fin 11, Fin 12]" "[Fin 9, Fin 10]"
      "[Fin 1000, Fin 1000]" 9 "[9]" 2 3 3]
  by simp

text \<open>
  The claim as stated fails for KDJ: on two bars whose highs and lows differ, with a window
  of 9, K, D and J are 50 at both positions, not NaN.
\<close>

theorem leading_positions_counterexample:
  "calc_kdj (map Fin [11, 12]) (map Fin [9, 10]) (map Fin [10, 11]) 9 3 3 =
     Inr \<lparr>K = [Fin 50, Fin 50], D = [Fin 50, Fin 50], J = [Fin 50, Fin 50],
          kdj_sig = kdj_neutral\<rparr>
   \<and> Fin 50 \<noteq> NaN"
  by (simp add: calc_kdj_def calc_rsv_def rolling_def Let_def fillna_def fsub_def agg_min_def
      agg_max_def upt_rec ewm_com_def ewm_mean_def ewm_step_def inf_to_nan_def
      get_kdj_signal_def iloc_def fgt_def fge_def)

text \<open>
  C9. Let the close series be finite, with at least \<open>p + 1\<close> values (\<open>p\<close> the RSI period, 14
  by default). If the last \<open>p + 1\<close> closes are strictly increasing, so that all \<open>p\<close> steps of
  the final window rise, the RSI that \<open>calc_rsi\<close> returns at the final position is 100: the
  mean loss is 0, the quotient is an infinity and \<open>100 / (1 + rs)\<close> is 0. If they are
  strictly decreasing, it is 0.
\<close>

theorem rsi_saturation:
  assumes "1 \<le> p" "Suc p \<le> length cs"
  shows "(sorted_wrt (\<lambda>x y. x < y) (drop (length cs - Suc p) cs) \<longrightarrow>
            (\<exists>r. calc_rsi (map Fin cs) p = Inr r \<and> last (RSI r) = Fin 100))
       \<and> (sorted_wrt (\<lambda>x y. x > y) (drop (length cs - Suc p) cs) \<longrightarrow>
            (\<exists>r. calc_rsi (map Fin cs) p = Inr r \<and> last (RSI r) = Fin 0))"
proof -
  obtain r where r: "calc_rsi (map Fin cs) p = Inr r" "RSI r = rsi_series (map Fin cs) p"
    using calc_rsi_total[of "map Fin cs" p] by blast
  show ?thesis
    using r rsi_increasing[OF assms] rsi_decreasing[OF assms] by auto
qed

theorem rsi_saturation_witness:
  "(\<exists>r. calc_rsi (map Fin [1, 2, 3, 4, 5, 6, 7, 8, 9, 10, 11, 12, 13, 14, 15]) 14 = Inr r
        \<and> last (RSI r) = Fin 100)
   \<and> (\<exists>r. calc_rsi (map Fin [15, 14, 13, 12, 11, 10, 9, 8, 7, 6, 5, 4, 3, 2, 1]) 14 = Inr r
        \<and> last (RSI r) = Fin 0)"
  using rsi_saturation [of 14 "[1, 2, 3, 4, 5, 6, 7, 8, 9, 10, 11, 12, 13, 14, 15]"]
    rsi_saturation [of 14 "[15, 14, 13, 12, 11, 10, 9, 8, 7, 6, 5, 4, 3, 2, 1]"]
  by simp

section \<open>Properties of the entry point\<close>

lemma one_bar_frame_columns: "frame_columns one_bar_frame [Fin 10] [Fin 11] [Fin 9] [Fin 1000]"
  by (simp add: frame_columns_def one_bar_frame_def column_def col_defs)

text \<open>
  C2. The claim says that only an empty series makes \<open>analyze_stock\<close> fail. On a frame of one
  row it raises \<open>IndexError\<close>: every indicator function returns, the signals being
  "insufficient data", and the read \<open>close.iloc[-2]\<close> for the change fails.
\<close>

theorem one_bar_index_error: "analyze_stock one_bar_frame = Inl IndexError"
  using one_bar_frame_columns by (rule analyze_stock_short) simp

lemma flat_frame_120_columns:
  "frame_columns flat_frame_120 (replicate 120 (Fin 10)) (replicate 120 (Fin 10))
     (replicate 120 (Fin 10)) (replicate 120 (Fin 1000))"
  by (simp add: frame_columns_def flat_frame_120_def column_def col_defs)

text \<open>
  C6. The claim says that from 120 bars on every indicator is defined at the final position.
  On 120 bars whose close never moves, the mean gain and the mean loss of the RSI are both
  0, \<open>gain / loss\<close> is NaN, and \<open>analyze_stock\<close> returns the RSI value NaN with the signal
  "neutral(nan)".
\<close>

theorem flat_series_rsi_nan:
  "map_sum id (\<lambda>b. (rsi_value (ind_RSI (b_indicators b)), rsi_signal (ind_RSI (b_indicators b))))
     (analyze_stock flat_frame_120)
   = Inr (NaN, rsi_neutral_prefix @ [0x6E, 0x61, 0x6E, 0x29])"
proof -
  let ?close = "replicate 120 (Fin 10)"
  obtain b rm rk rr rb where b: "analyze_stock flat_frame_120 = Inr b"
    "calc_rsi ?close 14 = Inr rr"
    "rsi_value (ind_RSI (b_indicators b)) = fround (last (RSI rr)) 2"
    "rsi_signal (ind_RSI (b_indicators b)) = rsi_sig rr"
    using analyze_stock_total[OF flat_frame_120_columns] by auto
  obtain r where r: "calc_rsi ?close 14 = Inr r" "RSI r = rsi_series ?close 14"
    "get_rsi_signal (rsi_series ?close 14) = Inr (rsi_sig r)"
    using calc_rsi_total[of ?close 14] by blast
  have rr: "rr = r" using b(2) r(1) by simp
  have nan: "last (rsi_series ?close 14) = NaN" by (rule rsi_flat) simp_all
  have "rsi_series ?close 14 \<noteq> []" by (simp flip: length_greater_0_conv)
  then have "get_rsi_signal (rsi_series ?close 14) = Inr (rsi_neutral_prefix @ [0x6E, 0x61, 0x6E, 0x29])"
    using nan by (rule get_rsi_signal_nan)
  then have "rsi_sig r = rsi_neutral_prefix @ [0x6E, 0x61, 0x6E, 0x29]" using r(3) by simp
  then show ?thesis using b rr r(2) nan by simp
qed

text \<open>
  C1 (as amended). On a frame of exactly 5 rows whose closes are finite, the close before the
  last not being 0, \<open>analyze_stock\<close> returns a bundle; the current price and the change are
  defined, that is, not NaN; the MACD and KDJ signals are ordinary labels, never "insufficient data", since the
  classifiers give that label only to series of fewer than 2 points and both series are
  defined from the first bar on; the values of RSI, of the three Bollinger bands and of ATR
  are NaN, their windows being unfilled.
\<close>

theorem five_bars:
  assumes "frame_columns df close high low volume" "length close = 5"
    "list_all is_fin close" "close ! 3 \<noteq> Fin 0"
  shows "\<exists>b. analyze_stock df = Inr b
       \<and> current (b_price b) \<noteq> NaN \<and> change_pct (b_price b) \<noteq> NaN
       \<and> macd_signal (ind_MACD (b_indicators b))
           \<in> set [macd_golden, macd_death, macd_bull_strong, macd_bull_emerging,
                  macd_bear_strong, macd_bear_emerging]
       \<and> macd_signal (ind_MACD (b_indicators b)) \<noteq> sig_insufficient
       \<and> kdj_signal (ind_KDJ (b_indicators b))
           \<in> set [kdj_oversold_golden, kdj_golden, kdj_high_golden, kdj_overbought_death,
                  kdj_death, kdj_low_death, kdj_overbought_zone, kdj_oversold_zone, kdj_neutral]
       \<and> kdj_signal (ind_KDJ (b_indicators b)) \<noteq> sig_insufficient
       \<and> rsi_value (ind_RSI (b_indicators b)) = NaN
       \<and> boll_upper (ind_BOLL (b_indicators b)) = NaN
       \<and> boll_mid (ind_BOLL (b_indicators b)) = NaN
       \<and> boll_lower (ind_BOLL (b_indicators b)) = NaN
       \<and> ind_ATR (b_indicators b) = NaN"
proof -
  have l: "length high = length close" "length low = length close"
    using assms(1) by (simp_all add: frame_columns_def)
  have ne: "close \<noteq> []" using assms(2) by auto
  obtain b rm rk rr rb where b: "analyze_stock df = Inr b"
    "calc_macd close 12 26 9 = Inr rm" "calc_kdj high low close 9 3 3 = Inr rk"
    "calc_rsi close 14 = Inr rr" "calc_boll close 20 2 = Inr rb"
    "current (b_price b) = fround (last close) 2"
    "change_pct (b_price b) =
       fround (fmul (fsub (fdiv (last close) (close ! (length close - 2))) (Fin 1)) (Fin 100)) 2"
    "macd_signal (ind_MACD (b_indicators b)) = macd_sig rm"
    "kdj_signal (ind_KDJ (b_indicators b)) = kdj_sig rk"
    "rsi_value (ind_RSI (b_indicators b)) = fround (last (RSI rr)) 2"
    "boll_upper (ind_BOLL (b_indicators b)) = fround (last (UPPER rb)) 2"
    "boll_mid (ind_BOLL (b_indicators b)) = fround (last (MID rb)) 2"
    "boll_lower (ind_BOLL (b_indicators b)) = fround (last (LOWER rb)) 2"
    "ind_ATR (b_indicators b) = fround (last (calc_atr high low close 14)) 2"
    using analyze_stock_total[OF assms(1)] assms(2) by auto
  \<comment> \<open>price and change\<close>
  have fin: "is_fin (last close)" "is_fin (close ! 3)"
    using assms(2,3) ne by (simp_all add: list_all_length last_conv_nth)
  then obtain x y where xy: "last close = Fin x" "close ! 3 = Fin y"
    by (cases "last close"; cases "close ! 3") simp_all
  have y: "y \<noteq> 0" using assms(4) xy by simp
  have p1: "current (b_price b) \<noteq> NaN"
    using fround_defined[of "last close" 2] by (simp add: b(6) xy)
  have q: "fdiv (last close) (close ! 3) \<noteq> NaN"
    using fdiv_defined[OF y, of x] by (simp add: xy)
  have p2: "change_pct (b_price b) \<noteq> NaN"
    using change_defined[OF q] by (simp add: b(7) assms(2))
  \<comment> \<open>MACD and KDJ signals\<close>
  obtain r1 where r1: "calc_macd close 12 26 9 = Inr r1" "length (DIF r1) = length close"
    "length (DEA r1) = length close" "get_macd_signal (DIF r1) (DEA r1) = Inr (macd_sig r1)"
    using calc_macd_total[of 12 26 9 close] by auto
  have "r1 = rm" using r1(1) b(2) by simp
  then have m: "macd_sig rm \<in> set [macd_golden, macd_death, macd_bull_strong,
      macd_bull_emerging, macd_bear_strong, macd_bear_emerging]"
    using get_macd_signal_label[OF r1(4)] r1(2,3) assms(2) by simp
  obtain r2 where r2: "calc_kdj high low close 9 3 3 = Inr r2"
    "K r2 = ewm_mean (1 / (1 + real_of_int (3 - 1))) (calc_rsv high low close 9)"
    "D r2 = ewm_mean (1 / (1 + real_of_int (3 - 1))) (K r2)"
    "get_kdj_signal (K r2) (D r2) = Inr (kdj_sig r2)"
    using calc_kdj_total[of 3 3 high close low 9] l by auto
  have "r2 = rk" using r2(1) b(3) by simp
  moreover have "length (K r2) = 5" "length (D r2) = length (K r2)"
    using l assms(2) by (simp_all add: r2(2,3))
  ultimately have k: "kdj_sig rk \<in> set [kdj_oversold_golden, kdj_golden, kdj_high_golden,
      kdj_overbought_death, kdj_death, kdj_low_death, kdj_overbought_zone, kdj_oversold_zone,
      kdj_neutral]"
    using get_kdj_signal_label[OF r2(4)] by simp
  \<comment> \<open>unfilled windows\<close>
  obtain r3 where r3: "calc_rsi close 14 = Inr r3" "RSI r3 = rsi_series close 14"
    using calc_rsi_total[of close 14] by blast
  have "r3 = rr" using r3(1) b(4) by simp
  moreover have "last (rsi_series close 14) = NaN"
    using assms(2) by (simp add: last_by_length[OF ne] rsi_series_leading)
  ultimately have v1: "rsi_value (ind_RSI (b_indicators b)) = NaN"
    using r3(2) by (simp add: b(10))
  obtain r4 where r4: "calc_boll close 20 2 = Inr r4" "MID r4 = rolling agg_mean 20 close"
    "UPPER r4 = map2 fadd (rolling agg_mean 20 close)
                     (map (fmul (Fin (real_of_int 2))) (rolling agg_std 20 close))"
    "LOWER r4 = map2 fsub (rolling agg_mean 20 close)
                     (map (fmul (Fin (real_of_int 2))) (rolling agg_std 20 close))"
    using calc_boll_total[of close 20 2] by auto
  have "r4 = rb" using r4(1) b(5) by simp
  moreover have "length (MID r4) = length close" "length (UPPER r4) = length close"
    "length (LOWER r4) = length close"
    by (simp_all add: r4(2,3,4))
  then have "last (MID r4) = MID r4 ! 4" "last (UPPER r4) = UPPER r4 ! 4"
    "last (LOWER r4) = LOWER r4 ! 4"
    using assms(2) last_by_length[OF ne] by simp_all
  then have "last (MID r4) = NaN" "last (UPPER r4) = NaN" "last (LOWER r4) = NaN"
    using assms(2) by (simp_all add: r4(2,3,4) rolling_leading fsub_def)
  ultimately have v2: "boll_upper (ind_BOLL (b_indicators b)) = NaN"
    "boll_mid (ind_BOLL (b_indicators b)) = NaN" "boll_lower (ind_BOLL (b_indicators b)) = NaN"
    by (simp_all add: b(11,12,13))
  have "last (calc_atr high low close 14) = NaN"
    using assms(2) l by (simp add: last_by_length[OF ne] calc_atr_leading)
  then have v3: "ind_ATR (b_indicators b) = NaN" by (simp add: b(14))
  have d: "macd_sig rm \<noteq> sig_insufficient" "kdj_sig rk \<noteq> sig_insufficient"
    using m k by (auto simp add: sig_defs)
  show ?thesis
    using b(1) p1 p2 m k d v1 v2 v3 by (simp add: b(8,9))
qed

lemma five_bar_frame_columns:
  "frame_columns five_bar_frame (map Fin [10, 11, 12, 13, 14]) (map Fin [11, 12, 13, 14, 15])
     (map Fin [9, 10, 11, 12, 13]) (map Fin [1000, 1000, 1000, 1000, 1000])"
  by (simp add: frame_columns_def five_bar_frame_def column_def col_defs)

theorem five_bars_witness:
  "length (map Fin [10, 11, 12, 13, 14 :: real]) = 5
   \<and> list_all is_fin (map Fin [10, 11, 12, 13, 14])
   \<and> map Fin [10, 11, 12, 13, 14] ! 3 \<noteq> Fin 0
   \<and> (\<exists>b. analyze_stock five_bar_frame = Inr b
       \<and> current (b_price b) \<noteq> NaN \<and> change_pct (b_price b) \<noteq> NaN
       \<and> macd_signal (ind_MACD (b_indicators b)) \<noteq> sig_insufficient
       \<and> kdj_signal (ind_KDJ (b_indicators b)) \<noteq> sig_insufficient
       \<and> rsi_value (ind_RSI (b_indicators b)) = NaN
       \<and> ind_ATR (b_indicators b) = NaN)"
proof -
  have h: "length (map Fin [10, 11, 12, 13, 14 :: real]) = 5"
    "list_all is_fin (map Fin [10, 11, 12, 13, 14])"
    "map Fin [10, 11, 12, 13, 14] ! 3 \<noteq> Fin 0"
    by simp_all
  show ?thesis
    using h five_bars [OF five_bar_frame_columns h] by blast
qed

text \<open>
  The five-row frame with closes 10 to 14, evaluated function by function.
\<close>

lemma five_macd:
  "\<exists>r. calc_macd [Fin 10, Fin 11, Fin 12, Fin 13, Fin 14] 12 26 9 = Inr r
       \<and> DIF r \<noteq> [] \<and> DEA r \<noteq> []
       \<and> last (DIF r) = Fin (9585949240 / 15178486401)
       \<and> last (DEA r) = Fin (2165268771512 / 9486554000625)
       \<and> macd_sig r = macd_bull_strong"
  by (simp add: calc_macd_def ewm_span_def ewm_mean_def ewm_step_def inf_to_nan_def
      get_macd_signal_def iloc_def fsub_def fgt_def fge_def Let_def)

lemma five_kdj:
  "calc_kdj [Fin 11, Fin 12, Fin 13, Fin 14, Fin 15] [Fin 9, Fin 10, Fin 11, Fin 12, Fin 13]
     [Fin 10, Fin 11, Fin 12, Fin 13, Fin 14] 9 3 3
   = Inr \<lparr>K = [Fin 50, Fin 50, Fin 50, Fin 50, Fin 50], D = [Fin 50, Fin 50, Fin 50, Fin 50, Fin 50], J = [Fin 50, Fin 50, Fin 50, Fin 50, Fin 50],
          kdj_sig = kdj_neutral\<rparr>"
  by (simp add: calc_kdj_def calc_rsv_def rolling_def Let_def fillna_def fsub_def agg_min_def
      agg_max_def upt_rec ewm_com_def ewm_mean_def ewm_step_def inf_to_nan_def
      get_kdj_signal_def iloc_def fgt_def fge_def numeral_eq_Suc)

lemma five_rsi:
  "calc_rsi [Fin 10, Fin 11, Fin 12, Fin 13, Fin 14] 14
   = Inr \<lparr>RSI = [NaN, NaN, NaN, NaN, NaN], rsi_sig = rsi_neutral_prefix @ [0x6E, 0x61, 0x6E, 0x29]\<rparr>"
  by (simp add: calc_rsi_def rsi_series_def rolling_def Let_def diff_def fsub_def fgt_def
      get_rsi_signal_def iloc_def fmt1_def upt_rec numeral_eq_Suc)

lemma five_boll:
  "calc_boll [Fin 10, Fin 11, Fin 12, Fin 13, Fin 14] 20 2
   = Inr \<lparr>UPPER = [NaN, NaN, NaN, NaN, NaN], MID = [NaN, NaN, NaN, NaN, NaN], LOWER = [NaN, NaN, NaN, NaN, NaN],
          boll_sig = boll_below_mid\<rparr>"
  by (simp add: calc_boll_def rolling_def Let_def fsub_def fgt_def get_boll_signal_def iloc_def
      upt_rec numeral_eq_Suc)

lemma five_atr:
  "calc_atr [Fin 11, Fin 12, Fin 13, Fin 14, Fin 15] [Fin 9, Fin 10, Fin 11, Fin 12, Fin 13]
     [Fin 10, Fin 11, Fin 12, Fin 13, Fin 14] 14 = [NaN, NaN, NaN, NaN, NaN]"
  by (simp add: calc_atr_def rolling_def Let_def fsub_def shift1_def row_max3_def fmax2_def
      upt_rec numeral_eq_Suc)

lemma five_trend: "detect_trend [Fin 10, Fin 11, Fin 12, Fin 13, Fin 14] 20 60 = Inr trend_sideways"
  by (simp add: detect_trend_def rolling_def Let_def fgt_def iloc_def upt_rec numeral_eq_Suc)

lemma five_levels:
  "find_support_resistance [Fin 11, Fin 12, Fin 13, Fin 14, Fin 15] [Fin 9, Fin 10, Fin 11, Fin 12, Fin 13]
     [Fin 10, Fin 11, Fin 12, Fin 13, Fin 14] 20
   = Inr \<lparr>support = NaN, resistance = NaN, pivot = Fin 14\<rparr>"
  by (simp add: find_support_resistance_def rolling_def Let_def iloc_def upt_rec numeral_eq_Suc
      fround_def round_half_even_def)

lemma five_score:
  "technical_score macd_bull_strong kdj_neutral [0x4E2D, 0x6027, 0x28, 0x6E, 0x61, 0x6E, 0x29]
     boll_below_mid trend_sideways
   = \<lparr>score = 60, rating = rating_neutral, stars = 3\<rparr>"
  by (simp add: technical_score_def adjusted_score_def rating_tier_def Let_def kw_defs
      macd_bull_strong_def kdj_neutral_def rsi_neutral_prefix_def boll_below_mid_def
      trend_sideways_def trend_up_def trend_down_def)

lemma five_rounding:
  "fround (Fin 14) 2 = Fin 14"
  "fround (fmul (fsub (Fin (14 / 13)) (Fin 1)) (Fin 100)) 2 = Fin (769 / 100)"
  "fround (Fin (9585949240 / 15178486401)) 4 = Fin (6315 / 10000)"
  "fround (Fin (2165268771512 / 9486554000625)) 4 = Fin (2282 / 10000)"
  "fround (Fin 50) 2 = Fin 50"
  by (simp_all add: fround_def round_half_even_def fsub_def)


lemma five_bar_frame_reads:
  "column five_bar_frame col_close_zh col_close_en = Inr [Fin 10, Fin 11, Fin 12, Fin 13, Fin 14]"
  "column five_bar_frame col_high_zh col_high_en = Inr [Fin 11, Fin 12, Fin 13, Fin 14, Fin 15]"
  "column five_bar_frame col_low_zh col_low_en = Inr [Fin 9, Fin 10, Fin 11, Fin 12, Fin 13]"
  "column five_bar_frame col_volume_zh col_volume_en
     = Inr [Fin 1000, Fin 1000, Fin 1000, Fin 1000, Fin 1000]"
  by (simp_all add: five_bar_frame_def column_def col_defs)

text \<open>
  The claim as stated fails: on this frame of 5 rows \<open>analyze_stock\<close> returns the bundle
  \<open>five_bar_bundle\<close>, in which no signal is "insufficient data": MACD reports "bullish,
  strong", KDJ "neutral", RSI "neutral(nan)" and BOLL "below the middle band".
\<close>

theorem five_bars_counterexample:
  "analyze_stock five_bar_frame = Inr five_bar_bundle
   \<and> macd_signal (ind_MACD (b_indicators five_bar_bundle)) \<noteq> sig_insufficient
   \<and> kdj_signal (ind_KDJ (b_indicators five_bar_bundle)) \<noteq> sig_insufficient
   \<and> rsi_signal (ind_RSI (b_indicators five_bar_bundle)) \<noteq> sig_insufficient
   \<and> boll_signal (ind_BOLL (b_indicators five_bar_bundle)) \<noteq> sig_insufficient"
proof -
  obtain r where r: "calc_macd [Fin 10, Fin 11, Fin 12, Fin 13, Fin 14] 12 26 9 = Inr r"
    "DIF r \<noteq> []" "DEA r \<noteq> []"
    "last (DIF r) = Fin (9585949240 / 15178486401)"
    "last (DEA r) = Fin (2165268771512 / 9486554000625)"
    "macd_sig r = macd_bull_strong"
    using five_macd by blast
  have rd: "iloc (DIF r) (-1) = Inr (Fin (9585949240 / 15178486401))"
    "iloc (DEA r) (-1) = Inr (Fin (2165268771512 / 9486554000625))"
    using r(2-5) by (simp_all add: iloc_last)
  have "analyze_stock five_bar_frame = Inr five_bar_bundle"
    unfolding analyze_stock_def
    by (simp add: five_bar_frame_reads r(1,6) rd five_kdj five_rsi five_boll five_atr five_trend
        five_levels five_score five_rounding iloc_last iloc_prev Let_def five_bar_bundle_def
        rsi_neutral_prefix_def)
  then show ?thesis
    by (simp add: five_bar_bundle_def sig_defs)
qed
end
